theory Spec2Isabelle
  imports Complex_Main "HOL-Library.Sublist" "HOL-Library.Char_ord" "HOL-Library.List_Lexorder"
begin

section \<open>Floating-point values, errors and dictionaries\<close>

text \<open>
  A numpy \<open>float64\<close>: \<open>Fin r\<close> is the finite value \<open>r\<close> (\<open>Fin 0\<close> is \<open>+0.0\<close>), \<open>NegZero\<close> is
  \<open>-0.0\<close>, \<open>Inf s\<close> is the infinity with sign bit \<open>s\<close>, and \<open>NaN\<close>.  Which reals are doubles is
  not modelled, and neither is the value that rounding gives: the rounding of a non-zero
  real result is a parameter \<open>rd\<close> of every arithmetic operation.  The rules for zeros,
  infinities and NaN are those of IEEE 754.
\<close>

datatype fl = Fin real | NegZero | Inf bool | NaN

datatype error = ValueError | IndexError | ZeroDivisionError | NotImplementedError | OverflowError

fun fl_finite :: "fl \<Rightarrow> bool" where
  "fl_finite (Fin r) = True"
| "fl_finite NegZero = True"
| "fl_finite (Inf s) = False"
| "fl_finite NaN = False"

text \<open>The real value of a finite float.\<close>

fun fl_val :: "fl \<Rightarrow> real" where
  "fl_val (Fin r) = r"
| "fl_val NegZero = 0"
| "fl_val (Inf s) = 0"
| "fl_val NaN = 0"

text \<open>\<open>np.signbit\<close>; the sign bit of a NaN is not modelled and reads as false.\<close>

fun fl_signbit :: "fl \<Rightarrow> bool" where
  "fl_signbit (Fin r) = (r < 0)"
| "fl_signbit NegZero = True"
| "fl_signbit (Inf s) = s"
| "fl_signbit NaN = False"

definition fl_zero :: "bool \<Rightarrow> fl" where
  "fl_zero s = (if s then NegZero else Fin 0)"

fun fl_neg :: "fl \<Rightarrow> fl" where
  "fl_neg (Fin r) = (if r = 0 then NegZero else Fin (- r))"
| "fl_neg NegZero = Fin 0"
| "fl_neg (Inf s) = Inf (\<not> s)"
| "fl_neg NaN = NaN"

fun fl_abs :: "fl \<Rightarrow> fl" where
  "fl_abs (Fin r) = Fin \<bar>r\<bar>"
| "fl_abs NegZero = Fin 0"
| "fl_abs (Inf s) = Inf False"
| "fl_abs NaN = NaN"

definition fl_add :: "(real \<Rightarrow> fl) \<Rightarrow> fl \<Rightarrow> fl \<Rightarrow> fl" where
  "fl_add rd a b =
     (if a = NaN \<or> b = NaN then NaN
      else case a of
             Inf s \<Rightarrow> (case b of Inf t \<Rightarrow> if s = t then Inf s else NaN | _ \<Rightarrow> Inf s)
           | _ \<Rightarrow> (case b of
                     Inf t \<Rightarrow> Inf t
                   | _ \<Rightarrow> if fl_val a + fl_val b = 0
                          then fl_zero (a = NegZero \<and> b = NegZero)
                          else rd (fl_val a + fl_val b)))"

definition fl_sub :: "(real \<Rightarrow> fl) \<Rightarrow> fl \<Rightarrow> fl \<Rightarrow> fl" where
  "fl_sub rd a b = fl_add rd a (fl_neg b)"

definition fl_mul :: "(real \<Rightarrow> fl) \<Rightarrow> fl \<Rightarrow> fl \<Rightarrow> fl" where
  "fl_mul rd a b =
     (if a = NaN \<or> b = NaN then NaN
      else let s = (fl_signbit a \<noteq> fl_signbit b)
           in if \<not> fl_finite a \<or> \<not> fl_finite b
              then (if (fl_finite a \<and> fl_val a = 0) \<or> (fl_finite b \<and> fl_val b = 0) then NaN else Inf s)
              else if fl_val a * fl_val b = 0 then fl_zero s
              else rd (fl_val a * fl_val b))"

text \<open>
  Division of numpy scalars and arrays: a zero divisor gives an infinity or NaN (with a
  warning), not an exception.
\<close>

definition fl_div :: "(real \<Rightarrow> fl) \<Rightarrow> fl \<Rightarrow> fl \<Rightarrow> fl" where
  "fl_div rd a b =
     (if a = NaN \<or> b = NaN then NaN
      else let s = (fl_signbit a \<noteq> fl_signbit b)
           in if \<not> fl_finite a then (if fl_finite b then Inf s else NaN)
              else if \<not> fl_finite b then fl_zero s
              else if fl_val b = 0 then (if fl_val a = 0 then NaN else Inf s)
              else if fl_val a = 0 then fl_zero s
              else rd (fl_val a / fl_val b))"

definition fl_sq :: "(real \<Rightarrow> fl) \<Rightarrow> fl \<Rightarrow> fl" where
  "fl_sq rd a = fl_mul rd a a"

fun fl_sqrt :: "(real \<Rightarrow> fl) \<Rightarrow> fl \<Rightarrow> fl" where
  "fl_sqrt rd (Fin r) = (if r < 0 then NaN else if r = 0 then Fin 0 else rd (sqrt r))"
| "fl_sqrt rd NegZero = NegZero"
| "fl_sqrt rd (Inf s) = (if s then NaN else Inf False)"
| "fl_sqrt rd NaN = NaN"

text \<open>Comparisons of a float with a real constant; every comparison with NaN is false.\<close>

fun fl_gt :: "fl \<Rightarrow> real \<Rightarrow> bool" where
  "fl_gt (Fin x) r = (x > r)"
| "fl_gt NegZero r = (0 > r)"
| "fl_gt (Inf s) r = (\<not> s)"
| "fl_gt NaN r = False"

fun fl_lt :: "fl \<Rightarrow> real \<Rightarrow> bool" where
  "fl_lt (Fin x) r = (x < r)"
| "fl_lt NegZero r = (0 < r)"
| "fl_lt (Inf s) r = s"
| "fl_lt NaN r = False"

definition fl_is_zero :: "fl \<Rightarrow> bool" where
  "fl_is_zero a = (a = Fin 0 \<or> a = NegZero)"

text \<open>\<open>a[~np.isnan(a)]\<close>: the samples that are not NaN, in order.\<close>

definition drop_nan :: "fl list \<Rightarrow> fl list" where
  "drop_nan xs = filter (\<lambda>x. x \<noteq> NaN) xs"

text \<open>
  The numerical library: the rounding of the floating-point unit and the reductions of
  numpy and scipy on an array.  How a reduction orders and rounds its operations is inside
  the library, so each one is a parameter of the model: \<open>lib_mean np xs\<close> is the value that
  \<open>np.mean\<close> returns on the array \<open>xs\<close>, and so on.
\<close>

record numerics =
  lib_round :: "real \<Rightarrow> fl"
  lib_mean :: "fl list \<Rightarrow> fl"
  lib_std :: "fl list \<Rightarrow> fl"
  lib_min :: "fl list \<Rightarrow> fl"
  lib_max :: "fl list \<Rightarrow> fl"
  lib_ptp :: "fl list \<Rightarrow> fl"
  lib_median :: "fl list \<Rightarrow> fl"
  lib_percentile :: "fl list \<Rightarrow> real \<Rightarrow> fl"
  lib_skew :: "fl list \<Rightarrow> fl"
  lib_kurtosis :: "fl list \<Rightarrow> fl"
  lib_sum :: "fl list \<Rightarrow> fl"
  lib_argmax :: "fl list \<Rightarrow> nat"

text \<open>A value stored in a feature dictionary: a number, or the label of the epoch.\<close>

datatype 'l cell = Num fl | Label 'l

text \<open>
  A Python \<open>dict\<close> keeps its keys in insertion order; assigning to a key that is already
  there keeps its position.
\<close>

type_synonym 'l fdict = "(string \<times> 'l cell) list"

definition keys :: "'l fdict \<Rightarrow> string list" where
  "keys d = map fst d"

fun dict_set :: "'l fdict \<Rightarrow> string \<Rightarrow> 'l cell \<Rightarrow> 'l fdict" where
  "dict_set [] k v = [(k, v)]"
| "dict_set ((k', v') # d) k v = (if k' = k then (k, v) # d else (k', v') # dict_set d k v)"

fun dict_update :: "'l fdict \<Rightarrow> 'l fdict \<Rightarrow> 'l fdict" where
  "dict_update d [] = d"
| "dict_update d ((k, v) # other) = dict_update (dict_set d k v) other"

definition dict_get :: "'l fdict \<Rightarrow> string \<Rightarrow> 'l cell option" where
  "dict_get d k = map_of d k"

text \<open>\<open>np.diff\<close> on a boolean array is the exclusive or of neighbours.\<close>

definition np_diff_bool :: "bool list \<Rightarrow> bool list" where
  "np_diff_bool bs = map2 (\<lambda>b a. b \<noteq> a) (tl bs) (butlast bs)"

definition np_count_true :: "bool list \<Rightarrow> nat" where
  "np_count_true bs = length (filter id bs)"

text \<open>\<open>np.diff\<close> on a float array: the rounded differences of neighbours.\<close>

definition np_diff_fl :: "(real \<Rightarrow> fl) \<Rightarrow> fl list \<Rightarrow> fl list" where
  "np_diff_fl rd xs = map2 (\<lambda>b a. fl_sub rd b a) (tl xs) (butlast xs)"

section \<open>The statistical feature group\<close>

definition compute_statistical_features :: "numerics \<Rightarrow> fl list \<Rightarrow> string \<Rightarrow> 'l fdict" where
  "compute_statistical_features np signal_data0 pfx =
     (let features = [];
          signal_data = drop_nan signal_data0
      in if length signal_data = 0 then features
         else
          let features = dict_set features (pfx @ ''_mean'') (Num (lib_mean np signal_data));
              features = dict_set features (pfx @ ''_std'') (Num (lib_std np signal_data));
              features = dict_set features (pfx @ ''_min'') (Num (lib_min np signal_data));
              features = dict_set features (pfx @ ''_max'') (Num (lib_max np signal_data));
              features = dict_set features (pfx @ ''_range'') (Num (lib_ptp np signal_data));
              features = dict_set features (pfx @ ''_median'') (Num (lib_median np signal_data));
              q75 = lib_percentile np signal_data 75;
              q25 = lib_percentile np signal_data 25;
              features = dict_set features (pfx @ ''_iqr'') (Num (fl_sub (lib_round np) q75 q25));
              features =
                (if fl_gt (lib_std np signal_data) 0
                 then dict_set (dict_set features (pfx @ ''_skew'') (Num (lib_skew np signal_data)))
                        (pfx @ ''_kurtosis'') (Num (lib_kurtosis np signal_data))
                 else dict_set (dict_set features (pfx @ ''_skew'') (Num (Fin 0)))
                        (pfx @ ''_kurtosis'') (Num (Fin 0)));
              features = dict_set features (pfx @ ''_energy'')
                           (Num (lib_sum np (map (fl_sq (lib_round np)) signal_data)));
              features = dict_set features (pfx @ ''_rms'')
                           (Num (fl_sqrt (lib_round np)
                                   (lib_mean np (map (fl_sq (lib_round np)) signal_data))));
              zero_crossings =
                np_count_true (np_diff_bool (map fl_signbit
                   (map (\<lambda>x. fl_sub (lib_round np) x (lib_mean np signal_data)) signal_data)));
              features = dict_set features (pfx @ ''_zero_crossings'')
                           (Num (Fin (real zero_crossings)))
          in features)"

section \<open>Exact statistics\<close>

text \<open>
  Mean, standard deviation and the other reductions in exact real arithmetic.  The
  statistics of the inter-beat intervals are modelled with them; for the other feature
  groups they only serve to build \<open>lib_exact\<close>, one instance of the library parameter.
\<close>

definition np_mean :: "real list \<Rightarrow> real" where
  "np_mean xs = sum_list xs / real (length xs)"

text \<open>The \<open>k\<close>-th central moment; the standard deviation is the root of the second (\<open>ddof = 0\<close>).\<close>

definition moment :: "nat \<Rightarrow> real list \<Rightarrow> real" where
  "moment k xs = np_mean (map (\<lambda>x. (x - np_mean xs) ^ k) xs)"

definition np_std :: "real list \<Rightarrow> real" where
  "np_std xs = sqrt (moment 2 xs)"

definition np_min :: "real list \<Rightarrow> real" where
  "np_min xs = Min (set xs)"

definition np_max :: "real list \<Rightarrow> real" where
  "np_max xs = Max (set xs)"

definition np_ptp :: "real list \<Rightarrow> real" where
  "np_ptp xs = np_max xs - np_min xs"

definition np_median :: "real list \<Rightarrow> real" where
  "np_median xs =
     (let s = sort xs; n = length xs
      in if even n then (s ! (n div 2 - 1) + s ! (n div 2)) / 2 else s ! (n div 2))"

text \<open>The percentile with linear interpolation between order statistics.\<close>

definition np_percentile :: "real list \<Rightarrow> real \<Rightarrow> real" where
  "np_percentile xs q =
     (let s = sort xs; n = length xs;
          pos = q / 100 * real (n - 1);
          lo = nat \<lfloor>pos\<rfloor>;
          hi = min (lo + 1) (n - 1)
      in s ! lo + (pos - real lo) * (s ! hi - s ! lo))"

definition stats_skew :: "real list \<Rightarrow> real" where
  "stats_skew xs = moment 3 xs / (moment 2 xs) powr (3 / 2)"

definition stats_kurtosis :: "real list \<Rightarrow> real" where
  "stats_kurtosis xs = moment 4 xs / (moment 2 xs) ^ 2 - 3"

definition np_diff :: "'a::minus list \<Rightarrow> 'a list" where
  "np_diff xs = map2 (\<lambda>b a. b - a) (tl xs) (butlast xs)"

section \<open>Heart-rate variability\<close>

text \<open>
  \<open>_compute_hrv_features\<close>.  The boolean mask \<open>(ibi > 300) & (ibi < 2000)\<close> keeps finite
  values only; the statistics after it are taken on their real values, in exact
  arithmetic.
\<close>

definition compute_hrv_features :: "fl list \<Rightarrow> 'l fdict" where
  "compute_hrv_features ibi0 =
     (let features = []
      in if length ibi0 < 2 then features
         else
          let ibi = map fl_val (filter (\<lambda>x. fl_gt x 300 \<and> fl_lt x 2000) ibi0)
          in if length ibi < 2 then features
             else
              let features = dict_set features ''hrv_mean_ibi'' (Num (Fin (np_mean ibi)));
                  features = dict_set features ''hrv_sdnn'' (Num (Fin (np_std ibi)));
                  successive_diff = np_diff ibi;
                  features = dict_set features ''hrv_rmssd''
                     (Num (Fin (sqrt (np_mean (map (\<lambda>x. x ^ 2) successive_diff)))));
                  pnn50 = real (np_count_true (map (\<lambda>x. \<bar>x\<bar> > 50) successive_diff))
                            / real (length successive_diff) * 100;
                  features = dict_set features ''hrv_pnn50'' (Num (Fin pnn50));
                  pnn20 = real (np_count_true (map (\<lambda>x. \<bar>x\<bar> > 20) successive_diff))
                            / real (length successive_diff) * 100;
                  features = dict_set features ''hrv_pnn20'' (Num (Fin pnn20))
              in features)"

section \<open>Peak detection and inter-beat intervals (preprocessing)\<close>

text \<open>
  Python's \<open>int\<close> on a float truncates towards zero; it raises \<open>OverflowError\<close> on an infinity
  and \<open>ValueError\<close> on NaN.
\<close>

definition py_int :: "real \<Rightarrow> int" where
  "py_int x = (if x \<ge> 0 then \<lfloor>x\<rfloor> else \<lceil>x\<rceil>)"

fun py_int_fl :: "fl \<Rightarrow> error + int" where
  "py_int_fl (Fin r) = Inr (py_int r)"
| "py_int_fl NegZero = Inr 0"
| "py_int_fl (Inf s) = Inl OverflowError"
| "py_int_fl NaN = Inl ValueError"

text \<open>The conversion of a Python \<open>int\<close> to a float.\<close>

definition fl_of_int :: "(real \<Rightarrow> fl) \<Rightarrow> int \<Rightarrow> fl" where
  "fl_of_int rd k = (if k = 0 then Fin 0 else rd (real_of_int k))"

text \<open>The doubles that the literals \<open>0.4\<close> and \<open>0.3\<close> denote.\<close>

definition double_0_4 :: real where
  "double_0_4 = 3602879701896397 / 9007199254740992"

definition double_0_3 :: real where
  "double_0_3 = 5404319552844595 / 18014398509481984"

text \<open>
  \<open>scipy.signal.find_peaks\<close> is library code: it is a parameter \<open>find_peaks\<close> of the model,
  taking the signal, the \<open>distance\<close> and the \<open>prominence\<close> and returning the peak indices
  or the exception it raises.
\<close>

type_synonym peak_finder = "fl list \<Rightarrow> int \<Rightarrow> fl \<Rightarrow> error + nat list"

definition detect_ppg_peaks ::
    "numerics \<Rightarrow> peak_finder \<Rightarrow> fl list \<Rightarrow> real \<Rightarrow> real \<Rightarrow> error + (nat list \<times> fl list)" where
  "detect_ppg_peaks np find_peaks bvp rate min_distance =
     (case py_int_fl (fl_mul (lib_round np) (Fin min_distance) (Fin rate)) of
        Inl e \<Rightarrow> Inl e
      | Inr min_samples \<Rightarrow>
         (case find_peaks bvp min_samples
                 (fl_mul (lib_round np) (lib_std np bvp) (Fin double_0_3)) of
            Inl e \<Rightarrow> Inl e
          | Inr peaks \<Rightarrow>
              if \<forall>i \<in> set peaks. i < length bvp then Inr (peaks, map (\<lambda>i. bvp ! i) peaks)
              else Inl IndexError))"

definition compute_ibi_from_peaks :: "numerics \<Rightarrow> nat list \<Rightarrow> real \<Rightarrow> fl list" where
  "compute_ibi_from_peaks np peak_indices rate =
     (let ibi_samples = np_diff (map int peak_indices);
          ibi_ms = map (\<lambda>d. fl_mul (lib_round np)
                               (fl_div (lib_round np) (fl_of_int (lib_round np) d) (Fin rate))
                               (Fin 1000)) ibi_samples
      in ibi_ms)"

section \<open>The epoch feature extractor\<close>

record FeatureExtractor =
  epoch_duration :: real
  fs :: real
  overlap :: real
  samples_per_epoch :: int
  step_size :: int

text \<open>
  \<open>__init__\<close>, for finite arguments.  The two products are float products, rounded before
  \<open>int\<close> truncates them.
\<close>

definition FeatureExtractor_init :: "numerics \<Rightarrow> real \<Rightarrow> real \<Rightarrow> real \<Rightarrow> error + FeatureExtractor" where
  "FeatureExtractor_init np duration rate ovl =
     (case py_int_fl (fl_mul (lib_round np) (Fin duration) (Fin rate)) of
        Inl e \<Rightarrow> Inl e
      | Inr spe \<Rightarrow>
         (case py_int_fl (fl_mul (lib_round np) (fl_of_int (lib_round np) spe)
                            (fl_sub (lib_round np) (Fin 1) (Fin ovl))) of
            Inl e \<Rightarrow> Inl e
          | Inr step \<Rightarrow>
              Inr \<lparr> epoch_duration = duration, fs = rate, overlap = ovl,
                    samples_per_epoch = spe, step_size = step \<rparr>))"

text \<open>
  The table: the names of its columns and its rows.  A row carries a cell for each column
  the extractor reads; the cell of a column that the table does not have is never read.
  A label cell is a label or null.
\<close>

record 'l row =
  ACC_X :: fl
  ACC_Y :: fl
  ACC_Z :: fl
  BVP :: fl
  HR :: fl
  Sleep_Stage :: "'l option"

record 'l dataframe =
  columns :: "string list"
  rows :: "'l row list"

text \<open>Python's \<open>range(start, stop, step)\<close> and the slice \<open>xs[start:stop]\<close>.\<close>

definition py_range :: "int \<Rightarrow> int \<Rightarrow> int \<Rightarrow> error + int list" where
  "py_range start stop step =
     (if step = 0 then Inl ValueError
      else if step > 0
      then Inr (map (\<lambda>k. start + int k * step) [0 ..< nat ((stop - start + step - 1) div step)])
      else Inr (map (\<lambda>k. start + int k * step) [0 ..< nat ((start - stop - step - 1) div (- step))]))"

definition py_slice :: "'a list \<Rightarrow> int \<Rightarrow> int \<Rightarrow> 'a list" where
  "py_slice xs start stop =
     (let n = int (length xs);
          s = (if start < 0 then max (start + n) 0 else min start n);
          e = (if stop < 0 then max (stop + n) 0 else min stop n)
      in take (nat (e - s)) (drop (nat s) xs))"

definition iloc :: "'l dataframe \<Rightarrow> int \<Rightarrow> int \<Rightarrow> 'l dataframe" where
  "iloc df start stop = df \<lparr> rows := py_slice (rows df) start stop \<rparr>"

text \<open>The cells of a column that are not null, in order.\<close>

fun dropna :: "'a option list \<Rightarrow> 'a list" where
  "dropna [] = []"
| "dropna (None # xs) = dropna xs"
| "dropna (Some x # xs) = x # dropna xs"

text \<open>
  \<open>Series.mode()\<close> of pandas, on the values that are not null: the values that occur most
  often, sorted in ascending order (empty when there is no value).
\<close>

definition series_mode :: "'l::linorder list \<Rightarrow> 'l list" where
  "series_mode xs =
     sort (remdups (filter (\<lambda>v. \<forall>w \<in> set xs. count_list xs w \<le> count_list xs v) xs))"

definition magnitude_of :: "(real \<Rightarrow> fl) \<Rightarrow> 'l row list \<Rightarrow> fl list" where
  "magnitude_of rd rs =
     map (\<lambda>r. fl_sqrt rd (fl_add rd (fl_add rd (fl_sq rd (ACC_X r)) (fl_sq rd (ACC_Y r)))
                                   (fl_sq rd (ACC_Z r)))) rs"

text \<open>\<open>_extract_imu_features\<close>; the loop over the three axes is written out.\<close>

definition extract_imu_features :: "numerics \<Rightarrow> 'l dataframe \<Rightarrow> 'l fdict" where
  "extract_imu_features np epoch_df =
     (let features = [];
          features = (if ''ACC_X'' \<in> set (columns epoch_df)
                      then dict_update features
                             (compute_statistical_features np (map ACC_X (rows epoch_df)) ''imu_x'')
                      else features);
          features = (if ''ACC_Y'' \<in> set (columns epoch_df)
                      then dict_update features
                             (compute_statistical_features np (map ACC_Y (rows epoch_df)) ''imu_y'')
                      else features);
          features = (if ''ACC_Z'' \<in> set (columns epoch_df)
                      then dict_update features
                             (compute_statistical_features np (map ACC_Z (rows epoch_df)) ''imu_z'')
                      else features)
      in if \<forall>c \<in> set [''ACC_X'', ''ACC_Y'', ''ACC_Z'']. c \<in> set (columns epoch_df)
         then
          let magnitude = magnitude_of (lib_round np) (rows epoch_df);
              features = dict_update features (compute_statistical_features np magnitude ''imu_mag'');
              features = dict_set features ''imu_activity_count''
                           (Num (lib_sum np (map fl_abs (np_diff_fl (lib_round np) magnitude))));
              features = dict_set features ''imu_movement_intensity'' (Num (lib_std np magnitude))
          in features
         else features)"

text \<open>
  \<open>_extract_ppg_features\<close>.  The \<open>try\<close> block swallows every exception of the peak
  detection: the features collected so far are returned.
\<close>

definition extract_ppg_features ::
    "numerics \<Rightarrow> FeatureExtractor \<Rightarrow> peak_finder \<Rightarrow> 'l dataframe \<Rightarrow> 'l fdict" where
  "extract_ppg_features np self find_peaks epoch_df =
     (let features = [];
          bvp = map BVP (rows epoch_df);
          features = dict_update features (compute_statistical_features np bvp ''ppg'');
          features =
            (if ''HR'' \<in> set (columns epoch_df)
             then
              let hr = drop_nan (map HR (rows epoch_df))
              in if length hr > 0
                 then
                  let features = dict_set features ''hr_mean'' (Num (lib_mean np hr));
                      features = dict_set features ''hr_std'' (Num (lib_std np hr));
                      features = dict_set features ''hr_min'' (Num (lib_min np hr));
                      features = dict_set features ''hr_max'' (Num (lib_max np hr));
                      features = dict_set features ''hr_range''
                                   (Num (fl_sub (lib_round np) (lib_max np hr) (lib_min np hr)))
                  in features
                 else features
             else features)
      in case detect_ppg_peaks np find_peaks bvp (fs self) double_0_4 of
           Inl e \<Rightarrow> features
         | Inr (peaks, _) \<Rightarrow>
             if length peaks > 2
             then dict_update features
                    (compute_hrv_features (compute_ibi_from_peaks np peaks (fs self)))
             else features)"

text \<open>The body of the loop of \<open>extract_all_features\<close>, for the epoch starting at \<open>start\<close>.\<close>

definition extract_epoch ::
    "numerics \<Rightarrow> FeatureExtractor \<Rightarrow> peak_finder \<Rightarrow> 'l::linorder dataframe \<Rightarrow> bool \<Rightarrow> bool \<Rightarrow> int
       \<Rightarrow> error + 'l fdict" where
  "extract_epoch np self find_peaks df include_imu include_ppg start =
     (let stop = start + samples_per_epoch self;
          epoch_df = iloc df start stop;
          features = [];
          features = (if include_imu \<and> (\<forall>c \<in> set [''ACC_X'', ''ACC_Y'', ''ACC_Z'']. c \<in> set (columns df))
                      then dict_update features (extract_imu_features np epoch_df) else features);
          features = (if include_ppg \<and> ''BVP'' \<in> set (columns df)
                      then dict_update features (extract_ppg_features np self find_peaks epoch_df)
                      else features)
      in if ''Sleep_Stage'' \<in> set (columns df)
         then (case series_mode (dropna (map Sleep_Stage (rows epoch_df))) of
                 [] \<Rightarrow> Inl IndexError
               | m # _ \<Rightarrow> Inr (dict_set features ''Sleep_Stage'' (Label m)))
         else Inr features)"

text \<open>Running the body over the start indices; the first exception ends the run.\<close>

fun map_result :: "('a \<Rightarrow> error + 'b) \<Rightarrow> 'a list \<Rightarrow> error + 'b list" where
  "map_result f [] = Inr []"
| "map_result f (x # xs) =
     (case f x of Inl e \<Rightarrow> Inl e
      | Inr y \<Rightarrow> (case map_result f xs of Inl e \<Rightarrow> Inl e | Inr ys \<Rightarrow> Inr (y # ys)))"

text \<open>
  \<open>extract_all_features\<close> returns \<open>pd.DataFrame(epochs)\<close>: the model returns the list
  \<open>epochs\<close> of dictionaries, one per epoch.
\<close>

definition extract_all_features ::
    "numerics \<Rightarrow> FeatureExtractor \<Rightarrow> peak_finder \<Rightarrow> 'l::linorder dataframe \<Rightarrow> bool \<Rightarrow> bool
       \<Rightarrow> error + 'l fdict list" where
  "extract_all_features np self find_peaks df include_imu include_ppg =
     (let n_samples = int (length (rows df))
      in case py_range 0 (n_samples - samples_per_epoch self + 1) (step_size self) of
           Inl e \<Rightarrow> Inl e
         | Inr starts \<Rightarrow> map_result (extract_epoch np self find_peaks df include_imu include_ppg) starts)"

text \<open>
  The header of \<open>pd.DataFrame(epochs)\<close> for a list of dictionaries: the keys of all
  dictionaries, each at the place where it is first met.
\<close>

definition first_seen :: "'a list list \<Rightarrow> 'a list" where
  "first_seen xss = rev (remdups (rev (concat xss)))"

definition dataframe_columns :: "'l fdict list \<Rightarrow> string list" where
  "dataframe_columns epochs = first_seen (map keys epochs)"

section \<open>Signal preprocessing\<close>

text \<open>
  Arrays are objects: the store maps a reference (an index) to the array's contents, and
  \<open>alloc\<close> makes a new array.  \<open>data.copy()\<close> allocates an array with the same contents.
\<close>

type_synonym store = "fl list list"

definition alloc :: "store \<Rightarrow> fl list \<Rightarrow> store \<times> nat" where
  "alloc st arr = (st @ [arr], length st)"

definition np_copy :: "store \<Rightarrow> nat \<Rightarrow> store \<times> nat" where
  "np_copy st a = alloc st (st ! a)"

text \<open>\<open>np.arange(0, stop, step)\<close> for a non-zero step; a \<open>stop\<close> that is not finite raises.\<close>

definition np_arange :: "fl \<Rightarrow> real \<Rightarrow> error + real list" where
  "np_arange stop step =
     (if fl_finite stop
      then Inr (map (\<lambda>k. real k * step) [0 ..< nat \<lceil>fl_val stop / step\<rceil>])
      else Inl ValueError)"

text \<open>
  \<open>scipy.interpolate.interp1d\<close> is library code, a parameter of the model: from the sample
  times, the samples and the \<open>kind\<close> it builds the interpolating function, or raises.
\<close>

type_synonym interp1d_fn = "fl list \<Rightarrow> fl list \<Rightarrow> string \<Rightarrow> error + (real list \<Rightarrow> fl list)"

text \<open>
  \<open>resample_signal\<close>.  The sample times \<open>np.arange(n) / original_sr\<close> are taken without
  rounding; a zero rate gives NaN and infinities, as in numpy.
\<close>

definition resample_signal ::
    "interp1d_fn \<Rightarrow> store \<Rightarrow> nat \<Rightarrow> real \<Rightarrow> real \<Rightarrow> string \<Rightarrow> error + (store \<times> nat)" where
  "resample_signal interp1d st data original_sr target_sr method =
     (if original_sr = target_sr then Inr (np_copy st data)
      else
       let n_samples = length (st ! data);
           t_original = map (\<lambda>k. fl_div Fin (Fin (real k)) (Fin original_sr)) [0 ..< n_samples]
       in if n_samples = 0 then Inl IndexError
          else if target_sr = 0 then Inl ZeroDivisionError
          else (case np_arange (last t_original) (1 / target_sr) of
                  Inl e \<Rightarrow> Inl e
                | Inr t_target \<Rightarrow>
                    (case interp1d t_original (st ! data) method of
                       Inl e \<Rightarrow> Inl e
                     | Inr interpolator \<Rightarrow> Inr (alloc st (interpolator t_target)))))"

text \<open>\<open>np.where(d == 0, 1, d)\<close> on the one-element array of a reduction.\<close>

definition where_zero_one :: "fl \<Rightarrow> fl" where
  "where_zero_one d = (if fl_is_zero d then Fin 1 else d)"

text \<open>
  \<open>normalize_signal\<close> on a one-dimensional array (\<open>axis = None\<close>).  On an empty array
  \<open>np.min\<close> raises \<open>ValueError\<close> and \<open>np.percentile\<close> raises \<open>IndexError\<close>.
\<close>

definition normalize_signal :: "numerics \<Rightarrow> fl list \<Rightarrow> string \<Rightarrow> error + fl list" where
  "normalize_signal np data method =
     (if method = ''zscore'' then
        let mean = lib_mean np data;
            std = lib_std np data;
            std = where_zero_one std
        in Inr (map (\<lambda>x. fl_div (lib_round np) (fl_sub (lib_round np) x mean) std) data)
      else if method = ''minmax'' then
        if data = [] then Inl ValueError
        else
         let min_val = lib_min np data;
             max_val = lib_max np data;
             range_val = fl_sub (lib_round np) max_val min_val;
             range_val = where_zero_one range_val
         in Inr (map (\<lambda>x. fl_div (lib_round np) (fl_sub (lib_round np) x min_val) range_val) data)
      else if method = ''robust'' then
        if data = [] then Inl IndexError
        else
         let median = lib_median np data;
             q75 = lib_percentile np data 75;
             q25 = lib_percentile np data 25;
             iqr = fl_sub (lib_round np) q75 q25;
             iqr = where_zero_one iqr
         in Inr (map (\<lambda>x. fl_div (lib_round np) (fl_sub (lib_round np) x median) iqr) data)
      else Inl ValueError)"

definition get_sampling_rate :: "string \<Rightarrow> error + real" where
  "get_sampling_rate resolution =
     (let resolution_map = [(''64Hz'', 64), (''100Hz'', 100)]
      in case map_of resolution_map resolution of
           None \<Rightarrow> Inl ValueError
         | Some r \<Rightarrow> Inr r)"

section \<open>Spectral features\<close>

text \<open>
  \<open>np.abs(np.fft.rfft(x))**2\<close> is library code, a parameter of the model: it returns the
  \<open>n div 2 + 1\<close> squared magnitudes, or raises on an empty array.
\<close>

type_synonym rfft_fn = "fl list \<Rightarrow> error + fl list"

definition band_power :: "numerics \<Rightarrow> fl list \<Rightarrow> fl list \<Rightarrow> real \<Rightarrow> real \<Rightarrow> fl" where
  "band_power np fft_freqs pwr low high =
     lib_sum np (map snd (filter (\<lambda>(f, p). f \<noteq> NaN \<and> \<not> fl_lt f low \<and> fl_lt f high)
                            (zip fft_freqs pwr)))"

definition extract_frequency_features ::
    "numerics \<Rightarrow> FeatureExtractor \<Rightarrow> rfft_fn \<Rightarrow> fl list \<Rightarrow> string \<Rightarrow> error + 'l fdict" where
  "extract_frequency_features np self rfft_power signal_data pfx =
     (let features = [];
          n = length signal_data
      in case rfft_power signal_data of
           Inl e \<Rightarrow> Inl e
         | Inr pwr \<Rightarrow>
            if fs self = 0 then Inl ZeroDivisionError
            else
             let d = fl_div (lib_round np) (Fin 1) (Fin (fs self));
                 val = fl_div (lib_round np) (Fin 1)
                         (fl_mul (lib_round np) (fl_of_int (lib_round np) (int n)) d);
                 fft_freqs = map (\<lambda>k. fl_mul (lib_round np) (fl_of_int (lib_round np) (int k)) val)
                               [0 ..< n div 2 + 1];
                 features = dict_set features (pfx @ ''_total_power'') (Num (lib_sum np pwr))
             in if tl pwr = [] then Inl ValueError
                else
                   let dominant_idx = lib_argmax np (tl pwr) + 1
                   in if dominant_idx \<ge> length fft_freqs then Inl IndexError
                      else
                       let features = dict_set features (pfx @ ''_dominant_freq'')
                                        (Num (fft_freqs ! dominant_idx));
                           features = dict_set features (pfx @ ''_vlf_power'')
                                        (Num (band_power np fft_freqs pwr (3 / 1000) (4 / 100)));
                           features = dict_set features (pfx @ ''_lf_power'')
                                        (Num (band_power np fft_freqs pwr (4 / 100) (15 / 100)));
                           features = dict_set features (pfx @ ''_hf_power'')
                                        (Num (band_power np fft_freqs pwr (15 / 100) (4 / 10)));
                           lf_power = (case dict_get features (pfx @ ''_lf_power'') of
                                         Some (Num v) \<Rightarrow> v | _ \<Rightarrow> Fin 0);
                           hf_power = (case dict_get features (pfx @ ''_hf_power'') of
                                         Some (Num v) \<Rightarrow> v | _ \<Rightarrow> Fin 1);
                           features = dict_set features (pfx @ ''_lf_hf_ratio'')
                                        (Num (if fl_gt hf_power 0
                                              then fl_div (lib_round np) lf_power hf_power
                                              else Fin 0))
                       in Inr features)"

section \<open>Instances of the library parameters\<close>

text \<open>
  Exact arithmetic: nothing is rounded, and a reduction of finite values is the exact
  statistic.  numpy returns these values wherever no operation rounds, as on the small
  integers and the zeros of the examples below.
\<close>

definition exact_reduce :: "(real list \<Rightarrow> real) \<Rightarrow> fl list \<Rightarrow> fl" where
  "exact_reduce f xs =
     (if xs \<noteq> [] \<and> (\<forall>x \<in> set xs. fl_finite x) then Fin (f (map fl_val xs)) else NaN)"

definition lib_exact :: numerics where
  "lib_exact =
     \<lparr> lib_round = Fin,
       lib_mean = exact_reduce np_mean,
       lib_std = exact_reduce np_std,
       lib_min = exact_reduce np_min,
       lib_max = exact_reduce np_max,
       lib_ptp = exact_reduce np_ptp,
       lib_median = exact_reduce np_median,
       lib_percentile = (\<lambda>xs q. exact_reduce (\<lambda>ys. np_percentile ys q) xs),
       lib_skew = exact_reduce stats_skew,
       lib_kurtosis = exact_reduce stats_kurtosis,
       lib_sum = (\<lambda>xs. if \<forall>x \<in> set xs. fl_finite x then Fin (sum_list (map fl_val xs)) else NaN),
       lib_argmax = (\<lambda>xs. length (takeWhile (\<lambda>x. fl_val x \<noteq> Max (set (map fl_val xs))) xs)) \<rparr>"

text \<open>
  The double that the literal \<open>0.1\<close> denotes, the double that its square rounds to, and
  the values of numpy and scipy on the arrays of 3 and of 1920 samples \<open>0.1\<close>.  The sum of
  the samples is not exact, and the mean that \<open>np.mean\<close> returns is the next double above
  \<open>0.1\<close>, which is \<open>0.1 + 2^-56\<close>.  Each deviation from it is \<open>-2^-56\<close> exactly, so \<open>np.std\<close>
  is \<open>2^-56\<close>, and \<open>scipy.stats.skew\<close> and \<open>kurtosis\<close> return NaN (the moments are lost to
  cancellation).  The square of \<open>0.1\<close> rounds to \<open>double_0_1_sq\<close>, whose root rounds back to
  \<open>0.1\<close>; no other operation of the examples on these arrays rounds.  On every other
  array the instance is \<open>lib_exact\<close>.
\<close>

definition double_0_1 :: real where
  "double_0_1 = 3602879701896397 / 36028797018963968"

definition double_0_1_sq :: real where
  "double_0_1_sq = 1441151880758559 / 144115188075855872"

definition rd_tenths :: "real \<Rightarrow> fl" where
  "rd_tenths r =
     (if r = double_0_1 ^ 2 \<or> r = double_0_1_sq then Fin double_0_1_sq
      else if r ^ 2 = double_0_1_sq \<and> r > 0 then Fin double_0_1
      else Fin r)"

definition is_tenths :: "fl list \<Rightarrow> bool" where
  "is_tenths xs = (xs = replicate 3 (Fin double_0_1) \<or> xs = replicate 1920 (Fin double_0_1))"

definition lib_tenths :: numerics where
  "lib_tenths =
     lib_exact
       \<lparr> lib_round := rd_tenths,
         lib_mean := (\<lambda>xs. if is_tenths xs then Fin (double_0_1 + 1 / 2 ^ 56)
                           else lib_mean lib_exact xs),
         lib_std := (\<lambda>xs. if is_tenths xs then Fin (1 / 2 ^ 56) else lib_std lib_exact xs),
         lib_skew := (\<lambda>xs. if is_tenths xs then NaN else lib_skew lib_exact xs),
         lib_kurtosis := (\<lambda>xs. if is_tenths xs then NaN else lib_kurtosis lib_exact xs) \<rparr>"

text \<open>
  An interpolation library that rejects every \<open>kind\<close>: what \<open>resample_signal\<close> returns
  with it does not depend on which kinds the library accepts.
\<close>

definition interp1d_reject :: interp1d_fn where
  "interp1d_reject t y kind = Inl NotImplementedError"

section \<open>The declared feature names\<close>

text \<open>
  The names of the feature groups, in the order in which the extractor assigns them.  They
  are used to state which names a feature vector can hold.
\<close>

definition stat_names :: "string \<Rightarrow> string list" where
  "stat_names pfx = map (\<lambda>s. pfx @ s)
     [''_mean'', ''_std'', ''_min'', ''_max'', ''_range'', ''_median'', ''_iqr'', ''_skew'',
      ''_kurtosis'', ''_energy'', ''_rms'', ''_zero_crossings'']"

definition hr_names :: "string list" where
  "hr_names = [''hr_mean'', ''hr_std'', ''hr_min'', ''hr_max'', ''hr_range'']"

definition hrv_names :: "string list" where
  "hrv_names = [''hrv_mean_ibi'', ''hrv_sdnn'', ''hrv_rmssd'', ''hrv_pnn50'', ''hrv_pnn20'']"

text \<open>The inter-beat intervals that pass the mask of \<open>_compute_hrv_features\<close>.\<close>

definition valid_ibi :: "fl list \<Rightarrow> real list" where
  "valid_ibi ibi = map fl_val (filter (\<lambda>x. fl_gt x 300 \<and> fl_lt x 2000) ibi)"

text \<open>The parts of a feature vector, used to state its closed form.\<close>

definition imu_tail :: "numerics \<Rightarrow> fl list \<Rightarrow> 'l fdict" where
  "imu_tail np magnitude =
     [(''imu_activity_count'', Num (lib_sum np (map fl_abs (np_diff_fl (lib_round np) magnitude)))),
      (''imu_movement_intensity'', Num (lib_std np magnitude))]"

definition hr_part :: "numerics \<Rightarrow> 'l dataframe \<Rightarrow> 'l fdict" where
  "hr_part np e =
     (let hr = drop_nan (map HR (rows e))
      in if ''HR'' \<in> set (columns e) \<and> hr \<noteq> []
         then [(''hr_mean'', Num (lib_mean np hr)), (''hr_std'', Num (lib_std np hr)),
               (''hr_min'', Num (lib_min np hr)), (''hr_max'', Num (lib_max np hr)),
               (''hr_range'', Num (fl_sub (lib_round np) (lib_max np hr) (lib_min np hr)))]
         else [])"

definition hrv_part :: "numerics \<Rightarrow> FeatureExtractor \<Rightarrow> peak_finder \<Rightarrow> 'l dataframe \<Rightarrow> 'l fdict" where
  "hrv_part np self find_peaks e =
     (case detect_ppg_peaks np find_peaks (map BVP (rows e)) (fs self) double_0_4 of
        Inl err \<Rightarrow> []
      | Inr (peaks, vals) \<Rightarrow>
          if length peaks > 2
          then compute_hrv_features (compute_ibi_from_peaks np peaks (fs self)) else [])"

definition imu_names :: "string list" where
  "imu_names = stat_names ''imu_x'' @ stat_names ''imu_y'' @ stat_names ''imu_z'' @
               stat_names ''imu_mag'' @ [''imu_activity_count'', ''imu_movement_intensity'']"

definition ppg_names :: "string list" where
  "ppg_names = stat_names ''ppg'' @ hr_names @ hrv_names"

text \<open>
  The names a feature vector can hold for a configuration and a set of columns, in the
  order of assignment.
\<close>

definition canonical_names :: "bool \<Rightarrow> bool \<Rightarrow> string list \<Rightarrow> string list" where
  "canonical_names include_imu include_ppg cols =
     (if include_imu \<and> {''ACC_X'', ''ACC_Y'', ''ACC_Z''} \<subseteq> set cols then imu_names else []) @
     (if include_ppg \<and> ''BVP'' \<in> set cols
      then stat_names ''ppg'' @ (if ''HR'' \<in> set cols then hr_names else []) @ hrv_names else []) @
     (if ''Sleep_Stage'' \<in> set cols then [''Sleep_Stage''] else [])"

text \<open>
  What the names of an epoch depend on besides the configuration and the columns: whether
  each channel of the epoch has a sample that is not NaN, and whether the pulse peaks give
  heart-rate-variability features.
\<close>

definition hrv_available :: "numerics \<Rightarrow> FeatureExtractor \<Rightarrow> peak_finder \<Rightarrow> 'l dataframe \<Rightarrow> bool" where
  "hrv_available np self find_peaks e =
     (case detect_ppg_peaks np find_peaks (map BVP (rows e)) (fs self) double_0_4 of
        Inl err \<Rightarrow> False
      | Inr (peaks, vals) \<Rightarrow>
          length peaks > 2 \<and> length (valid_ibi (compute_ibi_from_peaks np peaks (fs self))) \<ge> 2)"

definition group_flags :: "numerics \<Rightarrow> FeatureExtractor \<Rightarrow> peak_finder \<Rightarrow> 'l dataframe \<Rightarrow> bool list" where
  "group_flags np self find_peaks e =
     [drop_nan (map ACC_X (rows e)) \<noteq> [], drop_nan (map ACC_Y (rows e)) \<noteq> [],
      drop_nan (map ACC_Z (rows e)) \<noteq> [], drop_nan (magnitude_of (lib_round np) (rows e)) \<noteq> [],
      drop_nan (map BVP (rows e)) \<noteq> [], drop_nan (map HR (rows e)) \<noteq> [],
      hrv_available np self find_peaks e]"

text \<open>The rows of the \<open>i\<close>-th epoch of a table.\<close>

definition epoch_window :: "FeatureExtractor \<Rightarrow> 'l dataframe \<Rightarrow> nat \<Rightarrow> 'l dataframe" where
  "epoch_window self df i =
     iloc df (int i * step_size self) (int i * step_size self + samples_per_epoch self)"

text \<open>The features of an epoch before the label is added.\<close>

definition epoch_body ::
    "numerics \<Rightarrow> FeatureExtractor \<Rightarrow> peak_finder \<Rightarrow> 'l dataframe \<Rightarrow> bool \<Rightarrow> bool \<Rightarrow> 'l fdict" where
  "epoch_body np self find_peaks e include_imu include_ppg =
     (if include_imu \<and> {''ACC_X'', ''ACC_Y'', ''ACC_Z''} \<subseteq> set (columns e)
      then extract_imu_features np e else []) @
     (if include_ppg \<and> ''BVP'' \<in> set (columns e) then extract_ppg_features np self find_peaks e else [])"

text \<open>
  The names of a feature vector as a function of the configuration, the columns and the
  availability flags of \<open>group_flags\<close>.
\<close>

definition flag_names :: "bool \<Rightarrow> bool \<Rightarrow> string set \<Rightarrow> bool list \<Rightarrow> string list" where
  "flag_names include_imu include_ppg cols flags =
     (if include_imu \<and> {''ACC_X'', ''ACC_Y'', ''ACC_Z''} \<subseteq> cols
      then (if flags ! 0 then stat_names ''imu_x'' else []) @
           (if flags ! 1 then stat_names ''imu_y'' else []) @
           (if flags ! 2 then stat_names ''imu_z'' else []) @
           (if flags ! 3 then stat_names ''imu_mag'' else []) @
           [''imu_activity_count'', ''imu_movement_intensity'']
      else []) @
     (if include_ppg \<and> ''BVP'' \<in> cols
      then (if flags ! 4 then stat_names ''ppg'' else []) @
           (if ''HR'' \<in> cols \<and> flags ! 5 then hr_names else []) @
           (if flags ! 6 then hrv_names else [])
      else []) @
     (if ''Sleep_Stage'' \<in> cols then [''Sleep_Stage''] else [])"

text \<open>
  \<open>scipy.signal.find_peaks\<close> on a signal of fewer than three samples: there is no interior
  sample, so no peak is returned; a \<open>distance\<close> below 1 raises.  This instance of the
  parameter is used on such signals only.
\<close>

definition find_peaks_short :: peak_finder where
  "find_peaks_short x distance prominence = (if distance < 1 then Inl ValueError else Inr [])"

text \<open>
  Extractor objects, with the values that \<open>__init__\<close> computes for the arguments
  \<open>(1, 2, 0)\<close>, \<open>(1, 4, 0)\<close>, \<open>(1, 4, 0.5)\<close>, \<open>(4, 5, 0)\<close> and \<open>(30, 64, 0)\<close>; no
  operation rounds on these arguments.
\<close>

definition extractor_1s_2hz :: FeatureExtractor where
  "extractor_1s_2hz =
     \<lparr> epoch_duration = 1, fs = 2, overlap = 0, samples_per_epoch = 2, step_size = 2 \<rparr>"

definition extractor_1s_4hz :: FeatureExtractor where
  "extractor_1s_4hz =
     \<lparr> epoch_duration = 1, fs = 4, overlap = 0, samples_per_epoch = 4, step_size = 4 \<rparr>"

definition extractor_half_overlap :: FeatureExtractor where
  "extractor_half_overlap =
     \<lparr> epoch_duration = 1, fs = 4, overlap = 1 / 2, samples_per_epoch = 4, step_size = 2 \<rparr>"

definition extractor_4s_5hz :: FeatureExtractor where
  "extractor_4s_5hz =
     \<lparr> epoch_duration = 4, fs = 5, overlap = 0, samples_per_epoch = 20, step_size = 20 \<rparr>"

definition extractor_30s_64hz :: FeatureExtractor where
  "extractor_30s_64hz =
     \<lparr> epoch_duration = 30, fs = 64, overlap = 0, samples_per_epoch = 1920, step_size = 1920 \<rparr>"

text \<open>Tables with the same columns, of one epoch of two rows each.\<close>

definition table_hr_present :: "string dataframe" where
  "table_hr_present =
     \<lparr> columns = [''BVP'', ''HR''],
       rows = [\<lparr> ACC_X = NaN, ACC_Y = NaN, ACC_Z = NaN, BVP = Fin 1, HR = Fin 60, Sleep_Stage = None \<rparr>,
               \<lparr> ACC_X = NaN, ACC_Y = NaN, ACC_Z = NaN, BVP = Fin 2, HR = Fin 61, Sleep_Stage = None \<rparr>] \<rparr>"

definition table_hr_missing :: "string dataframe" where
  "table_hr_missing =
     \<lparr> columns = [''BVP'', ''HR''],
       rows = [\<lparr> ACC_X = NaN, ACC_Y = NaN, ACC_Z = NaN, BVP = Fin 1, HR = NaN, Sleep_Stage = None \<rparr>,
               \<lparr> ACC_X = NaN, ACC_Y = NaN, ACC_Z = NaN, BVP = Fin 2, HR = NaN, Sleep_Stage = None \<rparr>] \<rparr>"

definition table_hr_other :: "string dataframe" where
  "table_hr_other =
     \<lparr> columns = [''HR'', ''BVP''],
       rows = [\<lparr> ACC_X = NaN, ACC_Y = NaN, ACC_Z = NaN, BVP = Fin 7, HR = NaN, Sleep_Stage = None \<rparr>,
               \<lparr> ACC_X = NaN, ACC_Y = NaN, ACC_Z = NaN, BVP = Fin 3, HR = Fin 48, Sleep_Stage = None \<rparr>] \<rparr>"

text \<open>
  A labelled table of two epochs of two rows: the heart rate is missing in the first epoch
  and present in the second.
\<close>

definition table_hr_late :: "string dataframe" where
  "table_hr_late =
     \<lparr> columns = [''BVP'', ''HR'', ''Sleep_Stage''],
       rows = [\<lparr> ACC_X = NaN, ACC_Y = NaN, ACC_Z = NaN, BVP = Fin 1, HR = NaN, Sleep_Stage = Some ''W'' \<rparr>,
               \<lparr> ACC_X = NaN, ACC_Y = NaN, ACC_Z = NaN, BVP = Fin 2, HR = NaN, Sleep_Stage = Some ''W'' \<rparr>,
               \<lparr> ACC_X = NaN, ACC_Y = NaN, ACC_Z = NaN, BVP = Fin 1, HR = Fin 60, Sleep_Stage = Some ''W'' \<rparr>,
               \<lparr> ACC_X = NaN, ACC_Y = NaN, ACC_Z = NaN, BVP = Fin 2, HR = Fin 61, Sleep_Stage = Some ''W'' \<rparr>] \<rparr>"

text \<open>The header of the returned table; a run that raises returns no table.\<close>

definition result_columns :: "error + 'l fdict list \<Rightarrow> string list" where
  "result_columns r = (case r of Inl e \<Rightarrow> [] | Inr epochs \<Rightarrow> dataframe_columns epochs)"

text \<open>The names that \<open>extract_frequency_features\<close> assigns end in one of these.\<close>

definition spectral_suffixes :: "string list" where
  "spectral_suffixes = [''_total_power'', ''_dominant_freq'', ''_vlf_power'', ''_lf_power'',
                        ''_hf_power'', ''_lf_hf_ratio'']"

definition is_spectral_name :: "string \<Rightarrow> bool" where
  "is_spectral_name k = (\<exists>s \<in> set spectral_suffixes. suffix s k)"

text \<open>
  The labelling rule in the words of the specification: the most frequent label of the
  epoch, a tie going to the label that occurs first.
\<close>

definition first_occurrence_mode :: "'l list \<Rightarrow> 'l option" where
  "first_occurrence_mode xs = find (\<lambda>v. \<forall>w \<in> set xs. count_list xs w \<le> count_list xs v) xs"

text \<open>The labels of the rows of the \<open>i\<close>-th epoch, without the null cells.\<close>

definition epoch_labels :: "FeatureExtractor \<Rightarrow> 'l dataframe \<Rightarrow> nat \<Rightarrow> 'l list" where
  "epoch_labels self df i = dropna (map Sleep_Stage (rows (epoch_window self df i)))"

text \<open>Tables of labelled rows with no signal column; a null label is \<open>None\<close>.\<close>

definition labelled_row :: "string option \<Rightarrow> string row" where
  "labelled_row l = \<lparr> ACC_X = NaN, ACC_Y = NaN, ACC_Z = NaN, BVP = NaN, HR = NaN, Sleep_Stage = l \<rparr>"

definition table_majority_labels :: "string dataframe" where
  "table_majority_labels =
     \<lparr> columns = [''Sleep_Stage''],
       rows = map labelled_row [Some ''W'', Some ''W'', Some ''N1'', Some ''W''] \<rparr>"

definition table_tied_labels :: "string dataframe" where
  "table_tied_labels =
     \<lparr> columns = [''Sleep_Stage''],
       rows = map labelled_row [Some ''W'', Some ''W'', Some ''N1'', Some ''N1''] \<rparr>"

definition table_null_labels :: "string dataframe" where
  "table_null_labels =
     \<lparr> columns = [''Sleep_Stage''], rows = map labelled_row [None, None, None, None] \<rparr>"

definition table_seven_labels :: "string dataframe" where
  "table_seven_labels =
     \<lparr> columns = [''Sleep_Stage''],
       rows = map labelled_row [Some ''W'', Some ''W'', Some ''N1'', None, Some ''N2'', Some ''N2'',
                                Some ''R''] \<rparr>"

text \<open>
  The label part of a feature vector: the first mode of the labels of the window that are
  not null.
\<close>

definition label_part :: "'l::linorder dataframe \<Rightarrow> 'l fdict" where
  "label_part e =
     (if ''Sleep_Stage'' \<in> set (columns e)
      then [(''Sleep_Stage'', Label (hd (series_mode (dropna (map Sleep_Stage (rows e))))))]
      else [])"

text \<open>
  The sign bit of the centred sample \<open>x - m\<close>, read off the values: the sample is below
  the centre, or it is \<open>-0.0\<close> against a centre \<open>+0.0\<close>.  \<open>sign_changes\<close> are the positions
  at which this bit changes between neighbours.
\<close>

definition centred_signbit :: "fl \<Rightarrow> fl \<Rightarrow> bool" where
  "centred_signbit x m = (fl_val x < fl_val m \<or> (x = NegZero \<and> m = Fin 0))"

definition sign_changes :: "fl list \<Rightarrow> fl \<Rightarrow> nat set" where
  "sign_changes xs m =
     {i. Suc i < length xs \<and> (centred_signbit (xs ! i) m \<noteq> centred_signbit (xs ! Suc i) m)}"

text \<open>
  A table of 1920 rows (30 seconds at 64 Hz) whose acceleration is the constant
  \<open>(0.1, 0, 0)\<close>, of magnitude 0.1.
\<close>

definition table_tenth_acc :: "string dataframe" where
  "table_tenth_acc =
     \<lparr> columns = [''ACC_X'', ''ACC_Y'', ''ACC_Z''],
       rows = replicate 1920
                \<lparr> ACC_X = Fin double_0_1, ACC_Y = Fin 0, ACC_Z = Fin 0, BVP = NaN, HR = NaN,
                  Sleep_Stage = None \<rparr> \<rparr>"

text \<open>The values of the named features of each epoch of a run.\<close>

definition feature_values :: "error + 'l fdict list \<Rightarrow> string list \<Rightarrow> (error + 'l cell option list list)" where
  "feature_values r names =
     (case r of Inl e \<Rightarrow> Inl e | Inr epochs \<Rightarrow> Inr (map (\<lambda>fv. map (dict_get fv) names) epochs))"

text \<open>
  A simple peak finder, used to instantiate the parameter \<open>find_peaks\<close> on an example: the
  interior samples that are strictly above both neighbours.  On a train of unit pulses
  that are further apart than \<open>distance\<close>, each of prominence 1, this is what
  \<open>scipy.signal.find_peaks\<close> returns.
\<close>

definition fl_less :: "fl \<Rightarrow> fl \<Rightarrow> bool" where
  "fl_less a b = (fl_finite a \<and> fl_finite b \<and> fl_val a < fl_val b)"

definition local_maxima :: peak_finder where
  "local_maxima x distance prominence =
     (if distance < 1 then Inl ValueError
      else Inr (filter (\<lambda>i. fl_less (x ! (i - 1)) (x ! i) \<and> fl_less (x ! (i + 1)) (x ! i))
                  [1 ..< length x - 1]))"

text \<open>
  A pulse waveform of 4 seconds at 5 Hz with five peaks 800 ms apart, and a list of
  intervals of which three, all of 800 ms, are in the valid band.
\<close>

definition pulse_row :: "real \<Rightarrow> string row" where
  "pulse_row v = \<lparr> ACC_X = NaN, ACC_Y = NaN, ACC_Z = NaN, BVP = Fin v, HR = NaN, Sleep_Stage = None \<rparr>"

definition table_five_peaks :: "string dataframe" where
  "table_five_peaks =
     \<lparr> columns = [''BVP''],
       rows = map pulse_row [0, 0, 1, 0, 0, 0, 1, 0, 0, 0, 1, 0, 0, 0, 1, 0, 0, 0, 1, 0] \<rparr>"

definition ibi_with_outliers :: "fl list" where
  "ibi_with_outliers = [Fin 800, Fin 250, Fin 800, Fin 2500, Fin 300, Fin 800, Fin 2000]"

section \<open>Properties of the preprocessing functions\<close>

text \<open>
  C5.  When the source and the target rate are equal, \<open>resample_signal\<close> returns, for every
  signal, every rate and every method argument, a new array (a reference different from
  the input's) whose contents are the input's contents, and the input array is unchanged.
\<close>

theorem resample_signal_same_rate_identity:
  assumes "data < length st"
  shows "\<exists>st' out. resample_signal interp1d st data r r method = Inr (st', out)
           \<and> st' ! out = st ! data \<and> out \<noteq> data \<and> st' ! data = st ! data"
  using assms by (simp add: resample_signal_def np_copy_def alloc_def nth_append)

theorem resample_signal_same_rate_identity_witness:
  "(0::nat) < length [[Fin 1, Fin 2, NaN, NegZero]] \<and>
   (\<exists>st' out. resample_signal interp1d_reject [[Fin 1, Fin 2, NaN, NegZero]] 0 64 64 ''cubic'' = Inr (st', out)
           \<and> st' ! out = [[Fin 1, Fin 2, NaN, NegZero]] ! 0 \<and> out \<noteq> 0
           \<and> st' ! 0 = [[Fin 1, Fin 2, NaN, NegZero]] ! 0)"
  using resample_signal_same_rate_identity [of 0 "[[Fin 1, Fin 2, NaN, NegZero]]" interp1d_reject 64 "''cubic''"]
  by simp

text \<open>
  C6, as stated, fails: with equal rates \<open>resample_signal\<close> returns the copy before the
  method is looked at, so an unknown method raises nothing, even when the interpolation
  library would reject it.
\<close>

theorem resample_signal_unknown_method_counterexample:
  "resample_signal interp1d_reject [[Fin 1, Fin 2]] 0 64 64 ''bogus''
     = Inr ([[Fin 1, Fin 2], [Fin 1, Fin 2]], 1)"
  by (simp add: resample_signal_def np_copy_def alloc_def)

text \<open>
  C6, amended.  \<open>normalize_signal\<close> with a method other than zscore, minmax and robust
  raises \<open>ValueError\<close> on every input, and \<open>get_sampling_rate\<close> raises \<open>ValueError\<close> on
  every resolution other than 64Hz and 100Hz.  \<open>resample_signal\<close> does not check the method
  itself: when the rates differ and the interpolation library rejects the method, the call
  fails, and it fails with the library's error whenever the signal is not empty and both
  rates are non-zero.
\<close>

theorem unknown_method_surfaced:
  "(method \<notin> {''zscore'', ''minmax'', ''robust''} \<longrightarrow> normalize_signal np xs method = Inl ValueError) \<and>
   (resolution \<notin> {''64Hz'', ''100Hz''} \<longrightarrow> get_sampling_rate resolution = Inl ValueError) \<and>
   (original_sr \<noteq> target_sr \<and> (\<forall>t y. interp1d t y kind = Inl e) \<longrightarrow>
      (\<exists>e'. resample_signal interp1d st data original_sr target_sr kind = Inl e') \<and>
      (st ! data \<noteq> [] \<and> original_sr \<noteq> 0 \<and> target_sr \<noteq> 0 \<longrightarrow>
         resample_signal interp1d st data original_sr target_sr kind = Inl e))"
proof (intro conjI impI)
  assume "method \<notin> {''zscore'', ''minmax'', ''robust''}"
  then show "normalize_signal np xs method = Inl ValueError"
    by (simp add: normalize_signal_def)
next
  assume "resolution \<notin> {''64Hz'', ''100Hz''}"
  then show "get_sampling_rate resolution = Inl ValueError"
    by (simp add: get_sampling_rate_def)
next
  assume a: "original_sr \<noteq> target_sr \<and> (\<forall>t y. interp1d t y kind = Inl e)"
  then show "\<exists>e'. resample_signal interp1d st data original_sr target_sr kind = Inl e'"
    by (auto simp: resample_signal_def Let_def np_arange_def split: sum.splits)
next
  assume a: "original_sr \<noteq> target_sr \<and> (\<forall>t y. interp1d t y kind = Inl e)"
    and b: "st ! data \<noteq> [] \<and> original_sr \<noteq> 0 \<and> target_sr \<noteq> 0"
  then show "resample_signal interp1d st data original_sr target_sr kind = Inl e"
    by (auto simp: resample_signal_def Let_def np_arange_def fl_div_def fl_zero_def last_map
             split: sum.splits)
qed

theorem unknown_method_surfaced_witness:
  "''bogus'' \<notin> {''zscore'', ''minmax'', ''robust''} \<and>
   normalize_signal lib_exact [Fin 1, Fin 2] ''bogus'' = Inl ValueError \<and>
   ''32Hz'' \<notin> {''64Hz'', ''100Hz''} \<and> get_sampling_rate ''32Hz'' = Inl ValueError \<and>
   (64::real) \<noteq> 32 \<and> (\<forall>t y. interp1d_reject t y ''bogus'' = Inl NotImplementedError) \<and>
   [[Fin 1, Fin 2]] ! 0 \<noteq> [] \<and>
   resample_signal interp1d_reject [[Fin 1, Fin 2]] 0 64 32 ''bogus'' = Inl NotImplementedError"
  using unknown_method_surfaced [of "''bogus''" lib_exact "[Fin 1, Fin 2]" "''32Hz''" 64 32
      interp1d_reject "''bogus''" NotImplementedError "[[Fin 1, Fin 2]]" 0]
  by (simp add: interp1d_reject_def)









lemma lib_exact_simps:
  "lib_round lib_exact = Fin"
  "lib_mean lib_exact = exact_reduce np_mean"
  "lib_std lib_exact = exact_reduce np_std"
  "lib_min lib_exact = exact_reduce np_min"
  "lib_max lib_exact = exact_reduce np_max"
  "lib_median lib_exact = exact_reduce np_median"
  "lib_percentile lib_exact = (\<lambda>xs q. exact_reduce (\<lambda>ys. np_percentile ys q) xs)"
  by (simp_all add: lib_exact_def)


section \<open>Feature dictionaries in closed form\<close>

subsection \<open>Dictionaries\<close>

lemma dict_set_fresh: "k \<notin> set (keys d) \<Longrightarrow> dict_set d k v = d @ [(k, v)]"
  by (induction d) (auto simp: keys_def)

lemma dict_update_fresh:
  "distinct (keys other) \<Longrightarrow> set (keys d) \<inter> set (keys other) = {} \<Longrightarrow> dict_update d other = d @ other"
proof (induction other arbitrary: d)
  case Nil
  then show ?case by simp
next
  case (Cons a other)
  obtain k v where a: "a = (k, v)" by (cases a)
  from Cons.prems have k: "k \<notin> set (keys d)" and d: "distinct (keys other)"
    and kk: "k \<notin> set (keys other)" and dj: "set (keys d) \<inter> set (keys other) = {}"
    by (auto simp: a keys_def)
  have "set (keys (d @ [(k, v)])) \<inter> set (keys other) = {}"
    using dj kk by (auto simp: keys_def)
  with Cons.IH [of "d @ [(k, v)]"] d k show ?case
    by (simp add: a dict_set_fresh)
qed

lemma dict_update_empty: "distinct (keys other) \<Longrightarrow> dict_update [] other = other"
  using dict_update_fresh [of other "[]"] by (simp add: keys_def)

lemma keys_append: "keys (a @ b) = keys a @ keys b"
  by (simp add: keys_def)

lemma dict_get_append:
  "dict_get (a @ b) k = (case dict_get a k of None \<Rightarrow> dict_get b k | Some v \<Rightarrow> Some v)"
  by (simp add: dict_get_def map_add_def split: option.splits)

lemma dict_get_notin: "k \<notin> set (keys d) \<Longrightarrow> dict_get d k = None"
  by (simp add: dict_get_def keys_def map_of_eq_None_iff)

subsection \<open>The statistical group in closed form\<close>

lemma compute_statistical_features_eq:
  "compute_statistical_features np signal_data pfx =
     (if drop_nan signal_data = [] then []
      else let xs = drop_nan signal_data in
        [(pfx @ ''_mean'', Num (lib_mean np xs)),
         (pfx @ ''_std'', Num (lib_std np xs)),
         (pfx @ ''_min'', Num (lib_min np xs)),
         (pfx @ ''_max'', Num (lib_max np xs)),
         (pfx @ ''_range'', Num (lib_ptp np xs)),
         (pfx @ ''_median'', Num (lib_median np xs)),
         (pfx @ ''_iqr'', Num (fl_sub (lib_round np) (lib_percentile np xs 75) (lib_percentile np xs 25))),
         (pfx @ ''_skew'', Num (if fl_gt (lib_std np xs) 0 then lib_skew np xs else Fin 0)),
         (pfx @ ''_kurtosis'', Num (if fl_gt (lib_std np xs) 0 then lib_kurtosis np xs else Fin 0)),
         (pfx @ ''_energy'', Num (lib_sum np (map (fl_sq (lib_round np)) xs))),
         (pfx @ ''_rms'', Num (fl_sqrt (lib_round np) (lib_mean np (map (fl_sq (lib_round np)) xs)))),
         (pfx @ ''_zero_crossings'', Num (Fin (real (np_count_true (np_diff_bool
              (map fl_signbit (map (\<lambda>x. fl_sub (lib_round np) x (lib_mean np xs)) xs)))))))])"
  by (simp add: compute_statistical_features_def Let_def)

lemma keys_compute_statistical_features:
  "keys (compute_statistical_features np signal_data pfx) =
     (if drop_nan signal_data = [] then [] else stat_names pfx)"
  by (simp add: compute_statistical_features_eq keys_def stat_names_def Let_def)

lemma distinct_stat_names: "distinct (stat_names pfx)"
  by (simp add: stat_names_def)

lemma distinct_keys_stat: "distinct (keys (compute_statistical_features np signal_data pfx))"
  by (simp add: keys_compute_statistical_features distinct_stat_names)

lemma keys_stat_subset: "set (keys (compute_statistical_features np signal_data pfx)) \<subseteq> set (stat_names pfx)"
  by (simp add: keys_compute_statistical_features)

subsection \<open>The accelerometer and pulse groups in closed form\<close>

lemma stat_update:
  assumes "set (keys d) \<inter> set (stat_names pfx) = {}"
  shows "dict_update d (compute_statistical_features np xs pfx) = d @ compute_statistical_features np xs pfx"
  using assms keys_stat_subset [of np xs pfx]
  by (intro dict_update_fresh distinct_keys_stat) blast

lemma imu_names_disjoint:
  "set (stat_names ''imu_x'') \<inter> set (stat_names ''imu_y'') = {}"
  "(set (stat_names ''imu_x'') \<union> set (stat_names ''imu_y'')) \<inter> set (stat_names ''imu_z'') = {}"
  "(set (stat_names ''imu_x'') \<union> set (stat_names ''imu_y'') \<union> set (stat_names ''imu_z''))
      \<inter> set (stat_names ''imu_mag'') = {}"
  by (simp_all add: stat_names_def)

lemma extract_imu_features_eq:
  assumes "''ACC_X'' \<in> set (columns e)" "''ACC_Y'' \<in> set (columns e)" "''ACC_Z'' \<in> set (columns e)"
  shows "extract_imu_features np e =
           compute_statistical_features np (map ACC_X (rows e)) ''imu_x'' @
           compute_statistical_features np (map ACC_Y (rows e)) ''imu_y'' @
           compute_statistical_features np (map ACC_Z (rows e)) ''imu_z'' @
           compute_statistical_features np (magnitude_of (lib_round np) (rows e)) ''imu_mag'' @
           imu_tail np (magnitude_of (lib_round np) (rows e))"
proof -
  let ?sx = "compute_statistical_features np (map ACC_X (rows e)) ''imu_x'' :: 'a fdict"
  let ?sy = "compute_statistical_features np (map ACC_Y (rows e)) ''imu_y'' :: 'a fdict"
  let ?sz = "compute_statistical_features np (map ACC_Z (rows e)) ''imu_z'' :: 'a fdict"
  let ?sm = "compute_statistical_features np (magnitude_of (lib_round np) (rows e)) ''imu_mag'' :: 'a fdict"
  have kx: "set (keys ?sx) \<subseteq> set (stat_names ''imu_x'')"
    and ky: "set (keys ?sy) \<subseteq> set (stat_names ''imu_y'')"
    and kz: "set (keys ?sz) \<subseteq> set (stat_names ''imu_z'')"
    and km: "set (keys ?sm) \<subseteq> set (stat_names ''imu_mag'')"
    by (rule keys_stat_subset)+
  have 1: "dict_update [] ?sx = ?sx"
    by (simp add: dict_update_empty distinct_keys_stat)
  have 2: "dict_update ?sx ?sy = ?sx @ ?sy"
    using kx imu_names_disjoint(1) by (intro stat_update) blast
  have d3: "set (keys (?sx @ ?sy)) \<inter> set (stat_names ''imu_z'') = {}"
    using kx ky imu_names_disjoint(2) unfolding keys_append set_append by blast
  have 3: "dict_update (?sx @ ?sy) ?sz = ?sx @ ?sy @ ?sz"
    using stat_update [OF d3] by simp
  have d4: "set (keys (?sx @ ?sy @ ?sz)) \<inter> set (stat_names ''imu_mag'') = {}"
    using kx ky kz imu_names_disjoint(3) unfolding keys_append set_append by blast
  have 4: "dict_update (?sx @ ?sy @ ?sz) ?sm = ?sx @ ?sy @ ?sz @ ?sm"
    using stat_update [OF d4] by simp
  have a: "''imu_activity_count'' \<notin> set (keys (?sx @ ?sy @ ?sz @ ?sm))"
    using kx ky kz km by (auto simp: keys_append stat_names_def)
  have 5: "dict_set (?sx @ ?sy @ ?sz @ ?sm) ''imu_activity_count'' v
             = ?sx @ ?sy @ ?sz @ ?sm @ [(''imu_activity_count'', v)]" for v
    using dict_set_fresh [OF a] by simp
  have b: "''imu_movement_intensity'' \<notin> set (keys (?sx @ ?sy @ ?sz @ ?sm @ [(''imu_activity_count'', v)]))" for v
    using kx ky kz km by (auto simp: keys_append stat_names_def keys_def)
  have 6: "dict_set (?sx @ ?sy @ ?sz @ ?sm @ [(''imu_activity_count'', v)]) ''imu_movement_intensity'' w
             = ?sx @ ?sy @ ?sz @ ?sm @ [(''imu_activity_count'', v), (''imu_movement_intensity'', w)]" for v w
    using dict_set_fresh [OF b] by simp
  show ?thesis
    using assms
    by (simp add: extract_imu_features_def Let_def 1 2 3 4 5 6 imu_tail_def)
qed

subsection \<open>The pulse group in closed form\<close>

lemma compute_hrv_features_eq:
  "compute_hrv_features ibi0 =
     (if length ibi0 < 2 \<or> length (valid_ibi ibi0) < 2 then []
      else let ibi = valid_ibi ibi0; successive_diff = np_diff ibi in
        [(''hrv_mean_ibi'', Num (Fin (np_mean ibi))),
         (''hrv_sdnn'', Num (Fin (np_std ibi))),
         (''hrv_rmssd'', Num (Fin (sqrt (np_mean (map (\<lambda>x. x ^ 2) successive_diff))))),
         (''hrv_pnn50'', Num (Fin (real (np_count_true (map (\<lambda>x. \<bar>x\<bar> > 50) successive_diff))
                            / real (length successive_diff) * 100))),
         (''hrv_pnn20'', Num (Fin (real (np_count_true (map (\<lambda>x. \<bar>x\<bar> > 20) successive_diff))
                            / real (length successive_diff) * 100)))])"
  by (simp add: compute_hrv_features_def valid_ibi_def Let_def)

lemma keys_compute_hrv_features:
  "keys (compute_hrv_features ibi0) =
     (if length ibi0 < 2 \<or> length (valid_ibi ibi0) < 2 then [] else hrv_names)"
  by (simp add: compute_hrv_features_eq keys_def hrv_names_def Let_def)

lemma keys_hr_part:
  "keys (hr_part np e) =
     (if ''HR'' \<in> set (columns e) \<and> drop_nan (map HR (rows e)) \<noteq> [] then hr_names else [])"
  by (simp add: hr_part_def keys_def hr_names_def Let_def)

lemma keys_Nil: "keys [] = []"
  by (simp add: keys_def)

lemma keys_hrv_part_subset: "set (keys (hrv_part np self find_peaks e)) \<subseteq> set hrv_names"
  by (simp add: hrv_part_def keys_compute_hrv_features keys_Nil split: sum.splits prod.splits)

lemma distinct_keys_hrv_part: "distinct (keys (hrv_part np self find_peaks e))"
  by (simp add: hrv_part_def keys_compute_hrv_features keys_Nil hrv_names_def split: sum.splits prod.splits)

lemma ppg_names_disjoint:
  "set (stat_names ''ppg'') \<inter> set hr_names = {}"
  "(set (stat_names ''ppg'') \<union> set hr_names) \<inter> set hrv_names = {}"
  by (simp_all add: stat_names_def hr_names_def hrv_names_def)

lemma hr_sets:
  assumes "set (keys d) \<inter> set hr_names = {}"
  shows "dict_set (dict_set (dict_set (dict_set (dict_set d ''hr_mean'' v1) ''hr_std'' v2)
           ''hr_min'' v3) ''hr_max'' v4) ''hr_range'' v5 =
         d @ [(''hr_mean'', v1), (''hr_std'', v2), (''hr_min'', v3), (''hr_max'', v4), (''hr_range'', v5)]"
proof -
  have "dict_set d ''hr_mean'' v1 = d @ [(''hr_mean'', v1)]"
    using assms by (intro dict_set_fresh) (auto simp: hr_names_def)
  moreover have "dict_set (d @ [(''hr_mean'', v1)]) ''hr_std'' v2 = d @ [(''hr_mean'', v1), (''hr_std'', v2)]"
    using assms dict_set_fresh [of "''hr_std''" "d @ [(''hr_mean'', v1)]" v2]
    by (auto simp: hr_names_def keys_def)
  moreover have "dict_set (d @ [(''hr_mean'', v1), (''hr_std'', v2)]) ''hr_min'' v3
      = d @ [(''hr_mean'', v1), (''hr_std'', v2), (''hr_min'', v3)]"
    using assms dict_set_fresh [of "''hr_min''" "d @ [(''hr_mean'', v1), (''hr_std'', v2)]" v3]
    by (auto simp: hr_names_def keys_def)
  moreover have "dict_set (d @ [(''hr_mean'', v1), (''hr_std'', v2), (''hr_min'', v3)]) ''hr_max'' v4
      = d @ [(''hr_mean'', v1), (''hr_std'', v2), (''hr_min'', v3), (''hr_max'', v4)]"
    using assms dict_set_fresh [of "''hr_max''" "d @ [(''hr_mean'', v1), (''hr_std'', v2), (''hr_min'', v3)]" v4]
    by (auto simp: hr_names_def keys_def)
  moreover have "dict_set (d @ [(''hr_mean'', v1), (''hr_std'', v2), (''hr_min'', v3), (''hr_max'', v4)]) ''hr_range'' v5
      = d @ [(''hr_mean'', v1), (''hr_std'', v2), (''hr_min'', v3), (''hr_max'', v4), (''hr_range'', v5)]"
    using assms dict_set_fresh [of "''hr_range''" "d @ [(''hr_mean'', v1), (''hr_std'', v2), (''hr_min'', v3), (''hr_max'', v4)]" v5]
    by (auto simp: hr_names_def keys_def)
  ultimately show ?thesis by simp
qed

lemma extract_ppg_features_eq:
  "extract_ppg_features np self find_peaks e =
     compute_statistical_features np (map BVP (rows e)) ''ppg'' @ hr_part np e @ hrv_part np self find_peaks e"
proof -
  let ?sp = "compute_statistical_features np (map BVP (rows e)) ''ppg'' :: 'a fdict"
  have kp: "set (keys ?sp) \<subseteq> set (stat_names ''ppg'')"
    by (rule keys_stat_subset)
  have 1: "dict_update [] ?sp = ?sp"
    by (simp add: dict_update_empty distinct_keys_stat)
  have dh: "set (keys ?sp) \<inter> set hr_names = {}"
    using kp ppg_names_disjoint(1) by blast
  define f1 where "f1 = ?sp @ hr_part np e"
  have kf: "set (keys f1) \<subseteq> set (stat_names ''ppg'') \<union> set hr_names"
    using kp by (auto simp: f1_def keys_append keys_hr_part)
  have dv: "set (keys f1) \<inter> set (keys (hrv_part np self find_peaks e)) = {}"
    using kf keys_hrv_part_subset [of np self find_peaks e] ppg_names_disjoint(2) by blast
  have 3: "dict_update f1 (hrv_part np self find_peaks e) = f1 @ hrv_part np self find_peaks e"
    by (rule dict_update_fresh [OF distinct_keys_hrv_part dv])
  have 4: "(case detect_ppg_peaks np find_peaks (map BVP (rows e)) (fs self) double_0_4 of
           Inl e \<Rightarrow> f1
         | Inr (peaks, _) \<Rightarrow>
             if length peaks > 2
             then dict_update f1 (compute_hrv_features (compute_ibi_from_peaks np peaks (fs self)))
             else f1) = dict_update f1 (hrv_part np self find_peaks e)"
    by (simp add: hrv_part_def split: sum.splits prod.splits)
  have A: "extract_ppg_features np self find_peaks e =
           (case detect_ppg_peaks np find_peaks (map BVP (rows e)) (fs self) double_0_4 of
              Inl e \<Rightarrow> f1
            | Inr (peaks, _) \<Rightarrow>
               if length peaks > 2
               then dict_update f1 (compute_hrv_features (compute_ibi_from_peaks np peaks (fs self)))
               else f1)"
    unfolding f1_def
    by (simp add: extract_ppg_features_def Let_def 1 hr_sets [OF dh] hr_part_def
          split: sum.splits prod.splits)
  have "extract_ppg_features np self find_peaks e = f1 @ hrv_part np self find_peaks e"
    by (simp only: A 4 3)
  then show ?thesis
    by (simp add: f1_def)
qed

subsection \<open>The names of an epoch\<close>

lemma subseq_if: "subseq (if c then xs else []) xs"
  by simp

lemma keys_extract_imu_features:
  assumes "''ACC_X'' \<in> set (columns e)" "''ACC_Y'' \<in> set (columns e)" "''ACC_Z'' \<in> set (columns e)"
  shows "keys (extract_imu_features np e) =
     (if drop_nan (map ACC_X (rows e)) = [] then [] else stat_names ''imu_x'') @
     (if drop_nan (map ACC_Y (rows e)) = [] then [] else stat_names ''imu_y'') @
     (if drop_nan (map ACC_Z (rows e)) = [] then [] else stat_names ''imu_z'') @
     (if drop_nan (magnitude_of (lib_round np) (rows e)) = [] then [] else stat_names ''imu_mag'') @
     [''imu_activity_count'', ''imu_movement_intensity'']"
  unfolding extract_imu_features_eq [OF assms] keys_append keys_compute_statistical_features
  by (simp add: imu_tail_def keys_def)

lemma hrv_part_keys:
  "keys (hrv_part np self find_peaks e) = (if hrv_available np self find_peaks e then hrv_names else [])"
  by (auto simp: hrv_part_def hrv_available_def keys_compute_hrv_features keys_Nil
           compute_ibi_from_peaks_def np_diff_def
           split: sum.splits prod.splits)

lemma keys_extract_ppg_features:
  "keys (extract_ppg_features np self find_peaks e) =
     (if drop_nan (map BVP (rows e)) = [] then [] else stat_names ''ppg'') @
     (if ''HR'' \<in> set (columns e) \<and> drop_nan (map HR (rows e)) \<noteq> [] then hr_names else []) @
     (if hrv_available np self find_peaks e then hrv_names else [])"
  unfolding extract_ppg_features_eq keys_append keys_compute_statistical_features keys_hr_part
    hrv_part_keys
  by simp

lemma subseq_keys_imu:
  assumes "''ACC_X'' \<in> set (columns e)" "''ACC_Y'' \<in> set (columns e)" "''ACC_Z'' \<in> set (columns e)"
  shows "subseq (keys (extract_imu_features np e)) imu_names"
  unfolding keys_extract_imu_features [OF assms] imu_names_def
  by (intro list_emb_append_mono) simp_all

lemma subseq_keys_ppg:
  "subseq (keys (extract_ppg_features np self find_peaks e))
     (stat_names ''ppg'' @ (if ''HR'' \<in> set (columns e) then hr_names else []) @ hrv_names)"
  unfolding keys_extract_ppg_features
  by (intro list_emb_append_mono) simp_all

lemma distinct_imu_names: "distinct imu_names"
  by (simp add: imu_names_def stat_names_def)

lemma distinct_ppg_names: "distinct ppg_names"
  by (simp add: ppg_names_def stat_names_def hr_names_def hrv_names_def)

lemma imu_ppg_disjoint: "set imu_names \<inter> set ppg_names = {}"
  by (simp add: imu_names_def ppg_names_def stat_names_def hr_names_def hrv_names_def)

lemma label_not_feature: "''Sleep_Stage'' \<notin> set imu_names \<union> set ppg_names"
  by (simp add: imu_names_def ppg_names_def stat_names_def hr_names_def hrv_names_def)

subsection \<open>The loop body and the loop\<close>

lemma subseq_set: "subseq xs ys \<Longrightarrow> set xs \<subseteq> set ys"
  by (induction rule: list_emb.induct) auto

lemma subseq_distinct: "subseq xs ys \<Longrightarrow> distinct ys \<Longrightarrow> distinct xs"
  by (induction rule: list_emb.induct) (auto dest: subseq_set)

lemma columns_iloc: "columns (iloc df a b) = columns df"
  by (simp add: iloc_def)

lemma subseq_keys_ppg_names: "subseq (keys (extract_ppg_features np self find_peaks e)) ppg_names"
proof -
  have "subseq (stat_names ''ppg'' @ (if ''HR'' \<in> set (columns e) then hr_names else []) @ hrv_names) ppg_names"
    unfolding ppg_names_def by (intro list_emb_append_mono) simp_all
  then show ?thesis
    using subseq_keys_ppg subseq_order.order_trans by blast
qed

lemma keys_epoch_body_subset:
  "set (keys (epoch_body np self find_peaks e include_imu include_ppg)) \<subseteq> set imu_names \<union> set ppg_names"
  using subseq_keys_ppg_names [of np self find_peaks e] subseq_keys_imu [of e np]
  by (auto simp: epoch_body_def keys_append keys_Nil dest: subseq_set)

lemma extract_epoch_eq:
  "extract_epoch np self find_peaks df include_imu include_ppg start =
     (let e = iloc df start (start + samples_per_epoch self);
          features = epoch_body np self find_peaks e include_imu include_ppg
      in if ''Sleep_Stage'' \<in> set (columns df)
         then (case series_mode (dropna (map Sleep_Stage (rows e))) of
                 [] \<Rightarrow> Inl IndexError
               | m # _ \<Rightarrow> Inr (features @ [(''Sleep_Stage'', Label m)]))
         else Inr features)"
proof -
  let ?e = "iloc df start (start + samples_per_epoch self)"
  let ?pp = "extract_ppg_features np self find_peaks ?e :: 'a fdict"
  let ?im = "extract_imu_features np ?e :: 'a fdict"
  have dp: "distinct (keys ?pp)"
    using subseq_keys_ppg_names distinct_ppg_names subseq_distinct by blast
  have kp: "set (keys ?pp) \<subseteq> set ppg_names"
    using subseq_keys_ppg_names [of np self find_peaks ?e] by (rule subseq_set)
  have 1: "dict_update [] ?pp = ?pp"
    by (rule dict_update_empty [OF dp])
  have 2: "dict_update [] ?im = ?im"
    if "{''ACC_X'', ''ACC_Y'', ''ACC_Z''} \<subseteq> set (columns df)"
    using that subseq_keys_imu [of ?e np] distinct_imu_names subseq_distinct
    by (intro dict_update_empty) (auto simp: columns_iloc)
  have 3: "dict_update ?im ?pp = ?im @ ?pp"
    if "{''ACC_X'', ''ACC_Y'', ''ACC_Z''} \<subseteq> set (columns df)"
  proof -
    have "set (keys ?im) \<subseteq> set imu_names"
      using that subseq_keys_imu [of ?e np] by (auto simp: columns_iloc dest: subseq_set)
    with kp imu_ppg_disjoint have "set (keys ?im) \<inter> set (keys ?pp) = {}" by blast
    then show ?thesis by (rule dict_update_fresh [OF dp])
  qed
  have 4: "dict_set (epoch_body np self find_peaks ?e include_imu include_ppg) ''Sleep_Stage'' v
            = epoch_body np self find_peaks ?e include_imu include_ppg @ [(''Sleep_Stage'', v)]" for v
    using keys_epoch_body_subset [of np self find_peaks ?e include_imu include_ppg] label_not_feature
    by (intro dict_set_fresh) blast
  have 5: "(let features = [];
          features = (if include_imu \<and> (\<forall>c \<in> set [''ACC_X'', ''ACC_Y'', ''ACC_Z'']. c \<in> set (columns df))
                      then dict_update features (extract_imu_features np ?e) else features);
          features = (if include_ppg \<and> ''BVP'' \<in> set (columns df)
                      then dict_update features (extract_ppg_features np self find_peaks ?e)
                      else features) in features) = epoch_body np self find_peaks ?e include_imu include_ppg"
    using 1 2 3 by (simp add: epoch_body_def Let_def columns_iloc)
  show ?thesis
    unfolding extract_epoch_def Let_def 5 [unfolded Let_def]
    by (simp add: 4 split: list.splits)
qed

lemma map_result_Inr:
  "map_result f xs = Inr ys \<Longrightarrow> length ys = length xs \<and> (\<forall>i < length xs. f (xs ! i) = Inr (ys ! i))"
proof (induction xs arbitrary: ys)
  case Nil
  then show ?case by simp
next
  case (Cons x xs)
  then show ?case
    by (auto split: sum.splits simp: nth_Cons split: nat.splits)
qed

lemma map_result_total:
  "(\<And>x. x \<in> set xs \<Longrightarrow> \<exists>y. f x = Inr y) \<Longrightarrow> \<exists>ys. map_result f xs = Inr ys"
  by (induction xs) (auto split: sum.splits, force+)

lemma py_range_from_zero:
  "step \<noteq> 0 \<Longrightarrow> \<exists>n. py_range 0 stop step = Inr (map (\<lambda>k. int k * step) [0 ..< n])"
  by (auto simp: py_range_def)

lemma extract_all_features_nth:
  assumes "extract_all_features np self find_peaks df include_imu include_ppg = Inr eps"
    and "i < length eps"
  shows "extract_epoch np self find_peaks df include_imu include_ppg (int i * step_size self) = Inr (eps ! i)"
proof -
  from assms(1) have nz: "step_size self \<noteq> 0"
    by (auto simp: extract_all_features_def py_range_def split: if_splits)
  then obtain n where r: "py_range 0 (int (length (rows df)) - samples_per_epoch self + 1) (step_size self)
       = Inr (map (\<lambda>k. int k * step_size self) [0 ..< n])"
    using py_range_from_zero by blast
  with assms(1) have m: "map_result (extract_epoch np self find_peaks df include_imu include_ppg)
       (map (\<lambda>k. int k * step_size self) [0 ..< n]) = Inr eps"
    by (simp add: extract_all_features_def)
  from map_result_Inr [OF m] assms(2) show ?thesis
    by auto
qed

subsection \<open>Feature names\<close>

lemma keys_epoch_body:
  "keys (epoch_body np self find_peaks e include_imu include_ppg) @
     (if ''Sleep_Stage'' \<in> set (columns e) then [''Sleep_Stage''] else [])
   = flag_names include_imu include_ppg (set (columns e)) (group_flags np self find_peaks e)"
  by (simp add: epoch_body_def flag_names_def group_flags_def keys_append keys_Nil
      keys_extract_imu_features keys_extract_ppg_features)

lemma extract_epoch_keys:
  assumes "extract_epoch np self find_peaks df include_imu include_ppg start = Inr fv"
  shows "keys fv = flag_names include_imu include_ppg (set (columns df))
           (group_flags np self find_peaks (iloc df start (start + samples_per_epoch self)))"
proof -
  let ?e = "iloc df start (start + samples_per_epoch self)"
  have "keys fv = keys (epoch_body np self find_peaks ?e include_imu include_ppg) @
     (if ''Sleep_Stage'' \<in> set (columns ?e) then [''Sleep_Stage''] else [])"
    using assms unfolding extract_epoch_eq Let_def
    by (auto simp: keys_append columns_iloc keys_def split: if_splits list.splits)
  then show ?thesis
    using keys_epoch_body [of np self find_peaks ?e include_imu include_ppg]
    by (simp add: columns_iloc)
qed

lemma subseq_if_mono:
  "(c \<Longrightarrow> subseq a b) \<Longrightarrow> subseq (if c then a else []) (if c then b else [])"
  by simp

lemma subseq_if_weaken:
  "(c \<Longrightarrow> c') \<Longrightarrow> subseq (if c then a else []) (if c' then a else [])"
  by auto

lemma subseq_flag_names:
  "subseq (flag_names include_imu include_ppg (set cols) flags) (canonical_names include_imu include_ppg cols)"
proof -
  have 1: "subseq ((if flags ! 0 then stat_names ''imu_x'' else []) @
           (if flags ! 1 then stat_names ''imu_y'' else []) @
           (if flags ! 2 then stat_names ''imu_z'' else []) @
           (if flags ! 3 then stat_names ''imu_mag'' else []) @
           [''imu_activity_count'', ''imu_movement_intensity'']) imu_names"
    unfolding imu_names_def by (intro list_emb_append_mono subseq_if) simp
  have 2: "subseq ((if flags ! 4 then stat_names ''ppg'' else []) @
           (if ''HR'' \<in> set cols \<and> flags ! 5 then hr_names else []) @
           (if flags ! 6 then hrv_names else []))
           (stat_names ''ppg'' @ (if ''HR'' \<in> set cols then hr_names else []) @ hrv_names)"
    by (intro list_emb_append_mono subseq_if subseq_if_weaken) simp
  show ?thesis
    unfolding flag_names_def canonical_names_def
    by (intro list_emb_append_mono subseq_if_mono 1 2) simp
qed

lemma epoch_names:
  assumes "extract_all_features np self find_peaks df include_imu include_ppg = Inr eps"
    and "i < length eps"
  shows "keys (eps ! i) = flag_names include_imu include_ppg (set (columns df))
           (group_flags np self find_peaks (epoch_window self df i))"
  using extract_epoch_keys [OF extract_all_features_nth [OF assms]]
  by (simp add: epoch_window_def)

section \<open>Epoch windows\<close>

lemma series_mode_nonempty:
  assumes "xs \<noteq> []"
  shows "series_mode xs \<noteq> []"
proof -
  let ?M = "Max (count_list xs ` set xs)"
  have "?M \<in> count_list xs ` set xs"
    using assms by (intro Max_in) auto
  then obtain v where v: "v \<in> set xs" "count_list xs v = ?M" by auto
  have "\<forall>w \<in> set xs. count_list xs w \<le> count_list xs v"
    using v by (auto intro: Max_ge)
  with v have "v \<in> set (filter (\<lambda>v. \<forall>w \<in> set xs. count_list xs w \<le> count_list xs v) xs)"
    by simp
  then have "set (series_mode xs) \<noteq> {}"
    unfolding series_mode_def by auto
  then show ?thesis by auto
qed

lemma div_small:
  assumes "(1::int) \<le> S" "a < S"
  shows "a div S \<le> 0"
proof (rule ccontr)
  assume "\<not> a div S \<le> 0"
  then have "1 \<le> a div S" by simp
  then have "S \<le> (a div S) * S"
    using assms(1) mult_right_mono [of 1 "a div S" S] by simp
  moreover have "(a div S) * S \<le> a"
    using div_mult_mod_eq [of a S] pos_mod_sign [of S a] assms by linarith
  ultimately show False using assms by linarith
qed

lemma range_count:
  assumes "1 \<le> S"
  shows "nat ((N - E + S) div S) = (if E \<le> N then nat ((N - E) div S) + 1 else 0)"
proof (cases "E \<le> N")
  case True
  have "(N - E + S) div S = (N - E) div S + 1"
    using assms div_add_self2 [of S "N - E"] by simp
  moreover have "0 \<le> (N - E) div S"
    using True assms by (simp add: pos_imp_zdiv_nonneg_iff)
  ultimately show ?thesis using True by (simp add: nat_add_distrib)
next
  case False
  then have "N - E + S < S" by simp
  then have "(N - E + S) div S \<le> 0"
    using assms by (intro div_small)
  with False show ?thesis by simp
qed

lemma start_in_range:
  assumes "1 \<le> S" "i < nat ((N - E + S) div S)"
  shows "int i * S + E \<le> N"
proof -
  let ?q = "(N - E + S) div S"
  from assms(2) have "int i + 1 \<le> ?q" by linarith
  then have "(int i + 1) * S \<le> ?q * S"
    using assms(1) by (intro mult_right_mono) auto
  also have "?q * S \<le> N - E + S"
    using assms(1) div_mult_mod_eq [of "N - E + S" S] pos_mod_sign [of S "N - E + S"] by linarith
  finally show ?thesis by (simp add: algebra_simps)
qed

lemma py_range_epochs:
  assumes "1 \<le> S"
  shows "py_range 0 (N - E + 1) S = Inr (map (\<lambda>k. int k * S) [0 ..< nat ((N - E + S) div S)])"
proof -
  have e: "N - E + 1 - 0 + S - 1 = N - E + S" by simp
  show ?thesis
    unfolding py_range_def e using assms by auto
qed

lemma py_slice_inrange:
  assumes "0 \<le> a" "0 \<le> E" "a + E \<le> int (length xs)"
  shows "py_slice xs a (a + E) = take (nat E) (drop (nat a) xs)"
    and "length (py_slice xs a (a + E)) = nat E"
proof -
  have 1: "\<not> a < 0" "\<not> a + E < 0" "min a (int (length xs)) = a"
     "min (a + E) (int (length xs)) = a + E"
    using assms by auto
  show "py_slice xs a (a + E) = take (nat E) (drop (nat a) xs)"
    unfolding py_slice_def Let_def by (simp only: 1 if_False) simp
  then show "length (py_slice xs a (a + E)) = nat E"
    using assms by simp
qed

lemma window_rows:
  assumes "0 \<le> E" "0 \<le> S" "int i * S + E \<le> int (length xs)"
  shows "py_slice xs (int i * S) (int i * S + E) = take (nat E) (drop (i * nat S) xs)"
    and "length (py_slice xs (int i * S) (int i * S + E)) = nat E"
proof -
  have s: "0 \<le> int i * S" using assms(2) by simp
  have n: "nat (int i * S) = i * nat S"
    using assms(2) by (simp add: nat_mult_distrib)
  show "py_slice xs (int i * S) (int i * S + E) = take (nat E) (drop (i * nat S) xs)"
    using py_slice_inrange(1) [OF s assms(1) assms(3)] by (simp only: n)
  show "length (py_slice xs (int i * S) (int i * S + E)) = nat E"
    by (rule py_slice_inrange(2) [OF s assms(1) assms(3)])
qed

lemma extract_epoch_total:
  assumes "''Sleep_Stage'' \<in> set (columns df) \<longrightarrow>
             dropna (map Sleep_Stage (rows (iloc df start (start + samples_per_epoch self)))) \<noteq> []"
  shows "extract_epoch np self find_peaks df include_imu include_ppg start
           = Inr (epoch_body np self find_peaks (iloc df start (start + samples_per_epoch self))
                    include_imu include_ppg
                  @ label_part (iloc df start (start + samples_per_epoch self)))"
proof (cases "''Sleep_Stage'' \<in> set (columns df)")
  case True
  let ?ls = "dropna (map Sleep_Stage (rows (iloc df start (start + samples_per_epoch self))))"
  from True assms have "series_mode ?ls \<noteq> []"
    by (intro series_mode_nonempty) simp
  then obtain m rest where "series_mode ?ls = m # rest"
    by (cases "series_mode ?ls") auto
  with True show ?thesis
    by (simp add: extract_epoch_eq Let_def label_part_def columns_iloc)
next
  case False
  then show ?thesis
    by (simp add: extract_epoch_eq Let_def label_part_def columns_iloc)
qed

lemma extract_all_features_total:
  assumes "1 \<le> step_size self" and "0 \<le> samples_per_epoch self"
    and "''Sleep_Stage'' \<in> set (columns df) \<longrightarrow>
           (\<forall>i. int i * step_size self + samples_per_epoch self \<le> int (length (rows df))
                  \<longrightarrow> epoch_labels self df i \<noteq> [])"
  shows "\<exists>eps. extract_all_features np self find_peaks df include_imu include_ppg = Inr eps \<and>
           length eps = (if samples_per_epoch self \<le> int (length (rows df))
                         then nat ((int (length (rows df)) - samples_per_epoch self) div step_size self) + 1
                         else 0) \<and>
           (\<forall>i < length eps.
              eps ! i = epoch_body np self find_peaks (epoch_window self df i) include_imu include_ppg
                          @ label_part (epoch_window self df i) \<and>
              rows (epoch_window self df i)
                = take (nat (samples_per_epoch self)) (drop (i * nat (step_size self)) (rows df)) \<and>
              length (rows (epoch_window self df i)) = nat (samples_per_epoch self) \<and>
              i * nat (step_size self) + nat (samples_per_epoch self) \<le> length (rows df))"
proof -
  let ?S = "step_size self" and ?E = "samples_per_epoch self" and ?N = "int (length (rows df))"
  let ?n = "nat ((?N - ?E + ?S) div ?S)"
  let ?starts = "map (\<lambda>k. int k * ?S) [0 ..< ?n]"
  let ?f = "extract_epoch np self find_peaks df include_imu include_ppg"
  have r: "py_range 0 (?N - ?E + 1) ?S = Inr ?starts"
    by (rule py_range_epochs [OF assms(1)])
  have inr: "int i * ?S + ?E \<le> ?N" if "i < ?n" for i
    using start_in_range [OF assms(1) that] .
  have inr': "i * nat ?S + nat ?E \<le> length (rows df)" if "i < ?n" for i
  proof -
    have "int (i * nat ?S + nat ?E) = int i * ?S + ?E"
      using assms(1,2) by simp
    with inr [OF that] show ?thesis by linarith
  qed
  have w: "rows (epoch_window self df i) = take (nat ?E) (drop (i * nat ?S) (rows df))"
          "length (rows (epoch_window self df i)) = nat ?E" if "i < ?n" for i
    using window_rows [of ?E ?S i "rows df"] inr [OF that] assms(1,2)
    by (simp_all add: epoch_window_def iloc_def)
  have ep: "?f (int i * ?S) = Inr (epoch_body np self find_peaks (epoch_window self df i) include_imu include_ppg
                                    @ label_part (epoch_window self df i))" if "i < ?n" for i
  proof -
    have "''Sleep_Stage'' \<in> set (columns df) \<longrightarrow>
             dropna (map Sleep_Stage (rows (iloc df (int i * ?S) (int i * ?S + ?E)))) \<noteq> []"
      using assms(3) inr [OF that] by (simp add: epoch_labels_def epoch_window_def)
    from extract_epoch_total [OF this] show ?thesis
      by (simp add: epoch_window_def)
  qed
  have tot: "\<exists>fv. ?f x = Inr fv" if "x \<in> set ?starts" for x
  proof -
    from that obtain i where i: "i < ?n" "x = int i * ?S" by auto
    with ep [OF i(1)] show ?thesis by simp
  qed
  obtain eps where eps: "map_result ?f ?starts = Inr eps"
    using map_result_total [of ?starts ?f] tot by blast
  have all: "extract_all_features np self find_peaks df include_imu include_ppg = Inr eps"
    by (simp add: extract_all_features_def r eps)
  have len: "length eps = ?n"
    using map_result_Inr [OF eps] by simp
  have cnt: "?n = (if ?E \<le> ?N then nat ((?N - ?E) div ?S) + 1 else 0)"
    by (rule range_count [OF assms(1)])
  have nth: "eps ! i = epoch_body np self find_peaks (epoch_window self df i) include_imu include_ppg
                          @ label_part (epoch_window self df i)" if "i < ?n" for i
    using extract_all_features_nth [OF all, of i] ep [OF that] that len by simp
  have "\<forall>i < length eps.
              eps ! i = epoch_body np self find_peaks (epoch_window self df i) include_imu include_ppg
                          @ label_part (epoch_window self df i) \<and>
              rows (epoch_window self df i) = take (nat ?E) (drop (i * nat ?S) (rows df)) \<and>
              length (rows (epoch_window self df i)) = nat ?E \<and>
              i * nat ?S + nat ?E \<le> length (rows df)"
    using nth w inr' len by auto
  with all len cnt show ?thesis by metis
qed

lemma init_exact:
  "FeatureExtractor_init lib_exact 1 2 0 = Inr extractor_1s_2hz"
  "FeatureExtractor_init lib_exact 1 4 0 = Inr extractor_1s_4hz"
  "FeatureExtractor_init lib_exact 1 4 (1 / 2) = Inr extractor_half_overlap"
  "FeatureExtractor_init lib_exact 4 5 0 = Inr extractor_4s_5hz"
  "FeatureExtractor_init lib_exact 30 64 0 = Inr extractor_30s_64hz"
  by (simp_all add: FeatureExtractor_init_def lib_exact_simps fl_mul_def fl_sub_def fl_add_def
      fl_of_int_def py_int_def fl_zero_def extractor_1s_2hz_def extractor_1s_4hz_def
      extractor_half_overlap_def extractor_4s_5hz_def extractor_30s_64hz_def)

text \<open>
  C3, as stated, fails on a table whose label column is null throughout an epoch:
  \<open>Series.mode()\<close> of the window is empty, \<open>.iloc[0]\<close> raises \<open>IndexError\<close>, and the call
  produces no epoch, where the claim counts \<open>floor((4 - 4) / 4) + 1 = 1\<close>.
\<close>

theorem epoch_count_null_labels_counterexample:
  "FeatureExtractor_init lib_exact 1 4 0 = Inr extractor_1s_4hz \<and>
   samples_per_epoch extractor_1s_4hz = 4 \<and> step_size extractor_1s_4hz = 4 \<and>
   length (rows table_null_labels) = 4 \<and>
   extract_all_features lib_exact extractor_1s_4hz find_peaks_short table_null_labels True True
     = Inl IndexError"
proof -
  have "extract_all_features lib_exact extractor_1s_4hz find_peaks_short table_null_labels True True
     = Inl IndexError"
    by (simp add: extract_all_features_def extractor_1s_4hz_def py_range_def extract_epoch_eq
        iloc_def py_slice_def table_null_labels_def labelled_row_def series_mode_def)
  then show ?thesis
    by (simp add: init_exact) (simp add: extractor_1s_4hz_def table_null_labels_def)
qed

text \<open>
  C3, amended.  Let the table have \<open>N\<close> rows, \<open>E = samples_per_epoch \<ge> 0\<close> and
  \<open>S = step_size \<ge> 1\<close>, and let every window of \<open>E\<close> rows starting at a multiple of \<open>S\<close>
  hold a label that is not null when the table has a \<open>Sleep_Stage\<close> column.  Then
  \<open>extract_all_features\<close> returns, with \<open>floor((N - E) / S) + 1\<close> epochs for \<open>N \<ge> E\<close> and
  none for \<open>N < E\<close>.  The \<open>i\<close>-th epoch is the feature vector computed from the window of
  the rows \<open>i * S\<close> to \<open>i * S + E - 1\<close> and from nothing else: its features are those of the
  window, followed by the first mode of the window's labels.  The window has exactly \<open>E\<close>
  rows and lies inside the table, so a trailing partial window is dropped.
\<close>

theorem epoch_count_and_windows:
  assumes "1 \<le> step_size self" and "0 \<le> samples_per_epoch self"
    and "''Sleep_Stage'' \<in> set (columns df) \<longrightarrow>
           (\<forall>i. int i * step_size self + samples_per_epoch self \<le> int (length (rows df))
                  \<longrightarrow> epoch_labels self df i \<noteq> [])"
  shows "\<exists>eps. extract_all_features np self find_peaks df include_imu include_ppg = Inr eps \<and>
           length eps = (if samples_per_epoch self \<le> int (length (rows df))
                         then nat ((int (length (rows df)) - samples_per_epoch self) div step_size self) + 1
                         else 0) \<and>
           (\<forall>i < length eps.
              eps ! i = epoch_body np self find_peaks (epoch_window self df i) include_imu include_ppg
                          @ label_part (epoch_window self df i) \<and>
              rows (epoch_window self df i)
                = take (nat (samples_per_epoch self)) (drop (i * nat (step_size self)) (rows df)) \<and>
              length (rows (epoch_window self df i)) = nat (samples_per_epoch self) \<and>
              i * nat (step_size self) + nat (samples_per_epoch self) \<le> length (rows df))"
  by (rule extract_all_features_total [OF assms])

lemma seven_labels_windows:
  "rows (epoch_window extractor_half_overlap table_seven_labels 0)
     = map labelled_row [Some ''W'', Some ''W'', Some ''N1'', None]"
  "rows (epoch_window extractor_half_overlap table_seven_labels (Suc 0))
     = map labelled_row [Some ''N1'', None, Some ''N2'', Some ''N2'']"
  "columns (epoch_window extractor_half_overlap table_seven_labels i) = [''Sleep_Stage'']"
  by (simp_all add: epoch_window_def iloc_def py_slice_def extractor_half_overlap_def
      table_seven_labels_def)

lemma seven_labels_available:
  "''Sleep_Stage'' \<in> set (columns table_seven_labels) \<longrightarrow>
     (\<forall>i. int i * step_size extractor_half_overlap + samples_per_epoch extractor_half_overlap
             \<le> int (length (rows table_seven_labels))
           \<longrightarrow> epoch_labels extractor_half_overlap table_seven_labels i \<noteq> [])"
proof (intro impI allI)
  fix i
  assume "int i * step_size extractor_half_overlap + samples_per_epoch extractor_half_overlap
             \<le> int (length (rows table_seven_labels))"
  then have "i = 0 \<or> i = Suc 0"
    by (auto simp: extractor_half_overlap_def table_seven_labels_def)
  then show "epoch_labels extractor_half_overlap table_seven_labels i \<noteq> []"
    by (auto simp: epoch_labels_def seven_labels_windows labelled_row_def)
qed

theorem epoch_count_and_windows_witness:
  "FeatureExtractor_init lib_exact 1 4 (1 / 2) = Inr extractor_half_overlap \<and>
   1 \<le> step_size extractor_half_overlap \<and> 0 \<le> samples_per_epoch extractor_half_overlap \<and>
   length (rows table_seven_labels) = 7 \<and>
   (\<exists>eps. extract_all_features lib_exact extractor_half_overlap find_peaks_short table_seven_labels True True
             = Inr eps \<and>
      length eps = 2 \<and>
      eps ! 0 = [(''Sleep_Stage'', Label ''W'')] \<and>
      eps ! Suc 0 = [(''Sleep_Stage'', Label ''N2'')] \<and>
      rows (epoch_window extractor_half_overlap table_seven_labels (Suc 0))
        = take 4 (drop 2 (rows table_seven_labels)))"
proof -
  let ?cfg = "extractor_half_overlap"
  have h1: "1 \<le> step_size ?cfg" and h2: "0 \<le> samples_per_epoch ?cfg"
    by (simp_all add: extractor_half_overlap_def)
  have v: "samples_per_epoch ?cfg = 4" "step_size ?cfg = 2"
    by (simp_all add: extractor_half_overlap_def)
  have n: "length (rows table_seven_labels) = 7"
    by (simp add: table_seven_labels_def)
  from epoch_count_and_windows [OF h1 h2 seven_labels_available, of lib_exact find_peaks_short True True]
  obtain eps where e: "extract_all_features lib_exact ?cfg find_peaks_short table_seven_labels True True = Inr eps"
    and l: "length eps = (if samples_per_epoch ?cfg \<le> int (length (rows table_seven_labels))
                         then nat ((int (length (rows table_seven_labels)) - samples_per_epoch ?cfg)
                                div step_size ?cfg) + 1
                         else 0)"
    and a: "\<forall>i < length eps.
              eps ! i = epoch_body lib_exact ?cfg find_peaks_short (epoch_window ?cfg table_seven_labels i) True True
                          @ label_part (epoch_window ?cfg table_seven_labels i) \<and>
              rows (epoch_window ?cfg table_seven_labels i)
                = take (nat (samples_per_epoch ?cfg)) (drop (i * nat (step_size ?cfg)) (rows table_seven_labels)) \<and>
              length (rows (epoch_window ?cfg table_seven_labels i)) = nat (samples_per_epoch ?cfg) \<and>
              i * nat (step_size ?cfg) + nat (samples_per_epoch ?cfg) \<le> length (rows table_seven_labels)"
    by blast
  from l have len: "length eps = 2"
    unfolding n v by simp
  have b: "epoch_body lib_exact ?cfg find_peaks_short (epoch_window ?cfg table_seven_labels i) True True = []" for i
    by (simp add: epoch_body_def seven_labels_windows)
  have m: "series_mode [''W'', ''W'', ''N1''] = [''W'']" "series_mode [''N1'', ''N2'', ''N2''] = [''N2'']"
    by (simp_all add: series_mode_def)
  have l0: "label_part (epoch_window ?cfg table_seven_labels 0) = [(''Sleep_Stage'', Label ''W'')]"
    by (simp add: label_part_def seven_labels_windows labelled_row_def m)
  have l1: "label_part (epoch_window ?cfg table_seven_labels (Suc 0)) = [(''Sleep_Stage'', Label ''N2'')]"
    by (simp add: label_part_def seven_labels_windows labelled_row_def m)
  from a len have e0: "eps ! 0 = [(''Sleep_Stage'', Label ''W'')]"
    by (simp add: b l0)
  from a len have "eps ! Suc 0 = epoch_body lib_exact ?cfg find_peaks_short (epoch_window ?cfg table_seven_labels (Suc 0)) True True
                          @ label_part (epoch_window ?cfg table_seven_labels (Suc 0))"
    by simp
  then have e1: "eps ! Suc 0 = [(''Sleep_Stage'', Label ''N2'')]"
    by (simp add: b l1)
  from a len have "rows (epoch_window ?cfg table_seven_labels (Suc 0))
                = take (nat (samples_per_epoch ?cfg)) (drop (Suc 0 * nat (step_size ?cfg)) (rows table_seven_labels))"
    by simp
  then have w1: "rows (epoch_window ?cfg table_seven_labels (Suc 0)) = take 4 (drop 2 (rows table_seven_labels))"
    by (simp add: v)
  from e len e0 e1 w1 h1 h2 n init_exact(3) show ?thesis by blast
qed

section \<open>Feature names depend on the data through availability\<close>

lemma init_1_2_0:
  "samples_per_epoch extractor_1s_2hz = 2"
  "step_size extractor_1s_2hz = 2"
  "fs extractor_1s_2hz = 2"
  by (simp_all add: extractor_1s_2hz_def)

lemma one_epoch_unlabelled:
  assumes "length (rows df) = 2" "''Sleep_Stage'' \<notin> set (columns df)"
  shows "extract_all_features np extractor_1s_2hz find_peaks df include_imu include_ppg
         = Inr [epoch_body np extractor_1s_2hz find_peaks df include_imu include_ppg]"
  using assms
  by (simp add: extract_all_features_def init_1_2_0 py_range_def extract_epoch_eq iloc_def py_slice_def)

lemma hrv_short: "hrv_available lib_exact extractor_1s_2hz find_peaks_short e = False"
  by (simp add: hrv_available_def detect_ppg_peaks_def init_1_2_0 py_int_def find_peaks_short_def
      lib_exact_simps fl_mul_def double_0_4_def)

lemma magnitude_nan:
  "fl_sqrt rd (fl_add rd (fl_add rd (fl_sq rd NaN) y) z) = NaN"
  by (simp add: fl_sq_def fl_mul_def fl_add_def)

lemma flags_present:
  "group_flags lib_exact extractor_1s_2hz find_peaks_short table_hr_present
     = [False, False, False, False, True, True, False]"
  by (simp add: group_flags_def hrv_short table_hr_present_def magnitude_of_def magnitude_nan drop_nan_def)

lemma flags_missing:
  "group_flags lib_exact extractor_1s_2hz find_peaks_short table_hr_missing
     = [False, False, False, False, True, False, False]"
  by (simp add: group_flags_def hrv_short table_hr_missing_def magnitude_of_def magnitude_nan drop_nan_def)

lemma flags_other:
  "group_flags lib_exact extractor_1s_2hz find_peaks_short table_hr_other
     = [False, False, False, False, True, True, False]"
  by (simp add: group_flags_def hrv_short table_hr_other_def magnitude_of_def magnitude_nan drop_nan_def)

lemma extract_table_hr_other:
  "extract_all_features lib_exact extractor_1s_2hz find_peaks_short table_hr_other True True
     = Inr [epoch_body lib_exact extractor_1s_2hz find_peaks_short table_hr_other True True]"
  by (rule one_epoch_unlabelled) (simp_all add: table_hr_other_def)

lemma window_two_rows:
  "length (rows df) = 2 \<Longrightarrow> epoch_window extractor_1s_2hz df 0 = df"
  by (simp add: epoch_window_def iloc_def init_1_2_0 py_slice_def)

lemma keys_table_hr_present:
  "keys (epoch_body lib_exact extractor_1s_2hz find_peaks_short table_hr_present True True)
     = stat_names ''ppg'' @ hr_names"
  using keys_epoch_body [of lib_exact extractor_1s_2hz find_peaks_short table_hr_present True True]
  unfolding flags_present
  by (simp add: flag_names_def table_hr_present_def)

lemma extract_table_hr_present:
  "extract_all_features lib_exact extractor_1s_2hz find_peaks_short table_hr_present True True
     = Inr [epoch_body lib_exact extractor_1s_2hz find_peaks_short table_hr_present True True]"
  by (rule one_epoch_unlabelled) (simp_all add: table_hr_present_def)

lemma dataframe_columns_single: "distinct (keys fv) \<Longrightarrow> dataframe_columns [fv] = keys fv"
  by (simp add: dataframe_columns_def first_seen_def distinct_remdups_id)

text \<open>
  C1, as stated, fails: two tables with the same columns and the same configuration give
  different column headers when the heart-rate samples of an epoch are all missing in one
  of them and present in the other.
\<close>

theorem feature_names_data_dependent_counterexample:
  "set (columns table_hr_present) = set (columns table_hr_missing) \<and>
   result_columns (extract_all_features lib_exact extractor_1s_2hz find_peaks_short
                     table_hr_present True True) = stat_names ''ppg'' @ hr_names \<and>
   result_columns (extract_all_features lib_exact extractor_1s_2hz find_peaks_short
                     table_hr_missing True True) = stat_names ''ppg''"
proof -
  let ?cfg = "extractor_1s_2hz"
  have a: "extract_all_features lib_exact ?cfg find_peaks_short table_hr_present True True
           = Inr [epoch_body lib_exact ?cfg find_peaks_short table_hr_present True True]"
    by (rule one_epoch_unlabelled) (simp_all add: table_hr_present_def)
  have b: "extract_all_features lib_exact ?cfg find_peaks_short table_hr_missing True True
           = Inr [epoch_body lib_exact ?cfg find_peaks_short table_hr_missing True True]"
    by (rule one_epoch_unlabelled) (simp_all add: table_hr_missing_def)
  have ka: "keys (epoch_body lib_exact ?cfg find_peaks_short table_hr_present True True) = stat_names ''ppg'' @ hr_names"
    using keys_epoch_body [of lib_exact ?cfg find_peaks_short table_hr_present True True]
    unfolding flags_present
    by (simp add: flag_names_def table_hr_present_def)
  have kb: "keys (epoch_body lib_exact ?cfg find_peaks_short table_hr_missing True True) = stat_names ''ppg''"
    using keys_epoch_body [of lib_exact ?cfg find_peaks_short table_hr_missing True True]
    unfolding flags_missing
    by (simp add: flag_names_def table_hr_missing_def)
  have d: "distinct (stat_names ''ppg'' @ hr_names)"
    by (simp add: stat_names_def hr_names_def)
  have d': "distinct (stat_names ''ppg'')"
    by (simp add: stat_names_def)
  have ca: "dataframe_columns [epoch_body lib_exact ?cfg find_peaks_short table_hr_present True True]
              = stat_names ''ppg'' @ hr_names"
    using dataframe_columns_single d ka by metis
  have cb: "dataframe_columns [epoch_body lib_exact ?cfg find_peaks_short table_hr_missing True True]
              = stat_names ''ppg''"
    using dataframe_columns_single d' kb by metis
  have c: "set (columns table_hr_present) = set (columns table_hr_missing)"
    by (simp add: table_hr_present_def table_hr_missing_def)
  show ?thesis
    unfolding a b result_columns_def using ca cb c by simp
qed

lemma map_keys_epochs:
  assumes "\<forall>i < length eps. keys (eps ! i) = f i"
  shows "map keys eps = map f [0 ..< length eps]"
  using assms by (intro nth_equalityI) simp_all

lemma set_first_seen: "set (first_seen xss) = (\<Union>xs \<in> set xss. set xs)"
  by (simp add: first_seen_def)

lemma epoch_names_all:
  assumes "extract_all_features np self find_peaks df include_imu include_ppg = Inr eps"
  shows "\<forall>i < length eps. keys (eps ! i)
           = flag_names include_imu include_ppg (set (columns df))
               (group_flags np self find_peaks (epoch_window self df i))"
  using epoch_names [OF assms] by blast

lemma header_names:
  assumes "extract_all_features np self find_peaks df include_imu include_ppg = Inr eps"
  shows "dataframe_columns eps
           = first_seen (map (\<lambda>i. flag_names include_imu include_ppg (set (columns df))
                                    (group_flags np self find_peaks (epoch_window self df i)))
                           [0 ..< length eps])"
  unfolding dataframe_columns_def map_keys_epochs [OF epoch_names_all [OF assms]] ..

lemma header_subset:
  assumes "extract_all_features np self find_peaks df include_imu include_ppg = Inr eps"
  shows "set (dataframe_columns eps) \<subseteq> set (canonical_names include_imu include_ppg (columns df))"
  unfolding header_names [OF assms] set_first_seen
  using subseq_flag_names [of include_imu include_ppg "columns df"] subseq_set
  by fastforce

text \<open>
  C1, amended.  For a fixed configuration and a fixed set of columns, the names of an
  epoch's feature vector depend on the data only through the availability of each group.
  The names of the \<open>i\<close>-th epoch are exactly those that \<open>flag_names\<close> lists for the
  availability flags of its window, in that order: the statistics of a channel are
  present if and only if the window has a sample of the channel that is not NaN, the
  \<open>hr_*\<close> names if and only if the table has an \<open>HR\<close> column with such a sample in the
  window, the \<open>hrv_*\<close> names if and only if the peak detection gives more than two peaks
  and at least two valid intervals.  They are a subsequence of the canonical name list of
  the configuration and the columns.  The header of the returned table lists the names of
  all epochs, each where it is first met: it is a subset of the canonical names, in an
  order that depends on which epoch first has each group.  Two epochs with the same
  availability have the same names in the same order, and two runs with the same number
  of epochs and the same availability in each epoch return the same header.
\<close>

theorem feature_names_depend_on_availability:
  assumes "extract_all_features np self find_peaks df1 include_imu include_ppg = Inr eps1"
    and "extract_all_features np self find_peaks df2 include_imu include_ppg = Inr eps2"
    and "set (columns df1) = set (columns df2)"
  shows "(\<forall>i < length eps1.
            keys (eps1 ! i) = flag_names include_imu include_ppg (set (columns df1))
                                (group_flags np self find_peaks (epoch_window self df1 i)) \<and>
            subseq (keys (eps1 ! i)) (canonical_names include_imu include_ppg (columns df1))) \<and>
         dataframe_columns eps1
           = first_seen (map (\<lambda>i. flag_names include_imu include_ppg (set (columns df1))
                                    (group_flags np self find_peaks (epoch_window self df1 i)))
                           [0 ..< length eps1]) \<and>
         set (dataframe_columns eps1) \<subseteq> set (canonical_names include_imu include_ppg (columns df1)) \<and>
         (\<forall>i < length eps1. \<forall>j < length eps2.
            group_flags np self find_peaks (epoch_window self df1 i)
              = group_flags np self find_peaks (epoch_window self df2 j)
            \<longrightarrow> keys (eps1 ! i) = keys (eps2 ! j)) \<and>
         (length eps1 = length eps2 \<and>
          (\<forall>i < length eps1. group_flags np self find_peaks (epoch_window self df1 i)
                                = group_flags np self find_peaks (epoch_window self df2 i))
            \<longrightarrow> dataframe_columns eps1 = dataframe_columns eps2)"
proof (intro conjI allI impI)
  fix i assume "i < length eps1"
  then show "keys (eps1 ! i) = flag_names include_imu include_ppg (set (columns df1))
                                (group_flags np self find_peaks (epoch_window self df1 i))"
    by (rule epoch_names [OF assms(1)])
  then show "subseq (keys (eps1 ! i)) (canonical_names include_imu include_ppg (columns df1))"
    using subseq_flag_names [of include_imu include_ppg "columns df1"] by simp
next
  show "dataframe_columns eps1
           = first_seen (map (\<lambda>i. flag_names include_imu include_ppg (set (columns df1))
                                    (group_flags np self find_peaks (epoch_window self df1 i)))
                           [0 ..< length eps1])"
    by (rule header_names [OF assms(1)])
next
  show "set (dataframe_columns eps1) \<subseteq> set (canonical_names include_imu include_ppg (columns df1))"
    by (rule header_subset [OF assms(1)])
next
  fix i j
  assume "i < length eps1" "j < length eps2"
    and "group_flags np self find_peaks (epoch_window self df1 i)
              = group_flags np self find_peaks (epoch_window self df2 j)"
  then show "keys (eps1 ! i) = keys (eps2 ! j)"
    using epoch_names [OF assms(1), of i] epoch_names [OF assms(2), of j] assms(3) by simp
next
  assume a: "length eps1 = length eps2 \<and>
          (\<forall>i < length eps1. group_flags np self find_peaks (epoch_window self df1 i)
                                = group_flags np self find_peaks (epoch_window self df2 i))"
  then have "map (\<lambda>i. flag_names include_imu include_ppg (set (columns df1))
                        (group_flags np self find_peaks (epoch_window self df1 i))) [0 ..< length eps1]
           = map (\<lambda>i. flag_names include_imu include_ppg (set (columns df2))
                        (group_flags np self find_peaks (epoch_window self df2 i))) [0 ..< length eps2]"
    using assms(3) by simp
  then show "dataframe_columns eps1 = dataframe_columns eps2"
    unfolding header_names [OF assms(1)] header_names [OF assms(2)] by simp
qed

lemma hr_late_windows:
  "epoch_window extractor_1s_2hz table_hr_late 0
     = table_hr_missing \<lparr> columns := [''BVP'', ''HR'', ''Sleep_Stage''],
                          rows := map (\<lambda>r. r \<lparr> Sleep_Stage := Some ''W'' \<rparr>) (rows table_hr_missing) \<rparr>"
  "epoch_window extractor_1s_2hz table_hr_late (Suc 0)
     = table_hr_present \<lparr> columns := [''BVP'', ''HR'', ''Sleep_Stage''],
                          rows := map (\<lambda>r. r \<lparr> Sleep_Stage := Some ''W'' \<rparr>) (rows table_hr_present) \<rparr>"
  by (simp_all add: epoch_window_def iloc_def py_slice_def init_1_2_0 table_hr_late_def
      table_hr_missing_def table_hr_present_def)

lemma hr_late_flags:
  "group_flags lib_exact extractor_1s_2hz find_peaks_short (epoch_window extractor_1s_2hz table_hr_late 0)
     = [False, False, False, False, True, False, False]"
  "group_flags lib_exact extractor_1s_2hz find_peaks_short (epoch_window extractor_1s_2hz table_hr_late (Suc 0))
     = [False, False, False, False, True, True, False]"
  unfolding hr_late_windows
  by (simp_all add: group_flags_def hrv_short table_hr_missing_def table_hr_present_def
      magnitude_of_def magnitude_nan drop_nan_def)

lemma hr_late_labels:
  "''Sleep_Stage'' \<in> set (columns table_hr_late) \<longrightarrow>
     (\<forall>i. int i * step_size extractor_1s_2hz + samples_per_epoch extractor_1s_2hz
             \<le> int (length (rows table_hr_late))
           \<longrightarrow> epoch_labels extractor_1s_2hz table_hr_late i \<noteq> [])"
proof (intro impI allI)
  fix i
  assume "int i * step_size extractor_1s_2hz + samples_per_epoch extractor_1s_2hz
             \<le> int (length (rows table_hr_late))"
  then have "i = 0 \<or> i = Suc 0"
    by (auto simp: init_1_2_0 table_hr_late_def)
  then show "epoch_labels extractor_1s_2hz table_hr_late i \<noteq> []"
    by (auto simp: epoch_labels_def hr_late_windows table_hr_missing_def table_hr_present_def)
qed

lemma hr_late_header:
  "first_seen [stat_names ''ppg'' @ [''Sleep_Stage''], stat_names ''ppg'' @ hr_names @ [''Sleep_Stage'']]
     = stat_names ''ppg'' @ [''Sleep_Stage''] @ hr_names"
  by (simp add: first_seen_def stat_names_def hr_names_def)

lemma hr_late_not_canonical:
  "\<not> subseq (stat_names ''ppg'' @ [''Sleep_Stage''] @ hr_names)
            (canonical_names True True [''BVP'', ''HR'', ''Sleep_Stage''])"
  by (simp add: canonical_names_def stat_names_def hr_names_def hrv_names_def)

theorem feature_names_depend_on_availability_witness:
  "extract_all_features lib_exact extractor_1s_2hz find_peaks_short table_hr_present True True
     = Inr [epoch_body lib_exact extractor_1s_2hz find_peaks_short table_hr_present True True] \<and>
   extract_all_features lib_exact extractor_1s_2hz find_peaks_short table_hr_other True True
     = Inr [epoch_body lib_exact extractor_1s_2hz find_peaks_short table_hr_other True True] \<and>
   set (columns table_hr_present) = set (columns table_hr_other) \<and>
   group_flags lib_exact extractor_1s_2hz find_peaks_short (epoch_window extractor_1s_2hz table_hr_present 0)
     = group_flags lib_exact extractor_1s_2hz find_peaks_short (epoch_window extractor_1s_2hz table_hr_other 0) \<and>
   keys (epoch_body lib_exact extractor_1s_2hz find_peaks_short table_hr_present True True)
     = stat_names ''ppg'' @ hr_names \<and>
   keys (epoch_body lib_exact extractor_1s_2hz find_peaks_short table_hr_other True True)
     = stat_names ''ppg'' @ hr_names \<and>
   dataframe_columns [epoch_body lib_exact extractor_1s_2hz find_peaks_short table_hr_present True True]
     = dataframe_columns [epoch_body lib_exact extractor_1s_2hz find_peaks_short table_hr_other True True] \<and>
   (\<exists>eps. extract_all_features lib_exact extractor_1s_2hz find_peaks_short table_hr_late True True = Inr eps \<and>
      length eps = 2 \<and>
      keys (eps ! 0) = stat_names ''ppg'' @ [''Sleep_Stage''] \<and>
      keys (eps ! Suc 0) = stat_names ''ppg'' @ hr_names @ [''Sleep_Stage''] \<and>
      dataframe_columns eps = stat_names ''ppg'' @ [''Sleep_Stage''] @ hr_names \<and>
      \<not> subseq (dataframe_columns eps) (canonical_names True True (columns table_hr_late)))"
proof -
  let ?cfg = "extractor_1s_2hz"
  let ?B1 = "epoch_body lib_exact ?cfg find_peaks_short table_hr_present True True :: string fdict"
  let ?B2 = "epoch_body lib_exact ?cfg find_peaks_short table_hr_other True True :: string fdict"
  have c: "set (columns table_hr_present) = set (columns table_hr_other)"
    by (auto simp: table_hr_present_def table_hr_other_def)
  have w: "epoch_window ?cfg table_hr_present 0 = table_hr_present"
    "epoch_window ?cfg table_hr_other 0 = table_hr_other"
    by (rule window_two_rows, simp add: table_hr_present_def)
       (rule window_two_rows, simp add: table_hr_other_def)
  have f: "group_flags lib_exact ?cfg find_peaks_short (epoch_window ?cfg table_hr_present 0)
             = group_flags lib_exact ?cfg find_peaks_short (epoch_window ?cfg table_hr_other 0)"
    unfolding w flags_present flags_other ..
  note t = feature_names_depend_on_availability [OF extract_table_hr_present extract_table_hr_other c]
  note tA = t [THEN conjunct1]
  note tD = t [THEN conjunct2, THEN conjunct2, THEN conjunct2, THEN conjunct1]
  note tE = t [THEN conjunct2, THEN conjunct2, THEN conjunct2, THEN conjunct2]
  have "keys ([?B1] ! 0) = flag_names True True (set (columns table_hr_present))
                     (group_flags lib_exact ?cfg find_peaks_short (epoch_window ?cfg table_hr_present 0))"
    by (rule tA [rule_format, THEN conjunct1]) simp
  then have k1': "keys ?B1 = stat_names ''ppg'' @ hr_names"
    unfolding w flags_present by (simp add: flag_names_def table_hr_present_def)
  have "keys ([?B1] ! 0) = keys ([?B2] ! 0)"
    by (rule tD [rule_format, OF _ _ f]) simp_all
  with k1' have k2': "keys ?B2 = stat_names ''ppg'' @ hr_names"
    by simp
  have h: "dataframe_columns [?B1] = dataframe_columns [?B2]"
    by (rule tE [rule_format]) (simp add: f)
  have s1: "1 \<le> step_size ?cfg" and s2: "0 \<le> samples_per_epoch ?cfg"
    by (simp_all add: init_1_2_0)
  from extract_all_features_total [OF s1 s2 hr_late_labels, of lib_exact find_peaks_short True True]
  obtain eps where e: "extract_all_features lib_exact ?cfg find_peaks_short table_hr_late True True = Inr eps"
    and l: "length eps = (if samples_per_epoch ?cfg \<le> int (length (rows table_hr_late))
                         then nat ((int (length (rows table_hr_late)) - samples_per_epoch ?cfg)
                                div step_size ?cfg) + 1
                         else 0)"
    by blast
  from l have len: "length eps = 2"
    by (simp add: init_1_2_0 table_hr_late_def)
  have cl: "columns table_hr_late = [''BVP'', ''HR'', ''Sleep_Stage'']"
    by (simp add: table_hr_late_def)
  note u = feature_names_depend_on_availability [OF e e refl]
  note uA = u [THEN conjunct1]
  have "keys (eps ! 0) = flag_names True True (set (columns table_hr_late))
                     (group_flags lib_exact ?cfg find_peaks_short (epoch_window ?cfg table_hr_late 0))"
    by (rule uA [rule_format, THEN conjunct1]) (simp add: len)
  then have e0: "keys (eps ! 0) = stat_names ''ppg'' @ [''Sleep_Stage'']"
    unfolding hr_late_flags cl by (simp add: flag_names_def)
  have "keys (eps ! Suc 0) = flag_names True True (set (columns table_hr_late))
                     (group_flags lib_exact ?cfg find_peaks_short (epoch_window ?cfg table_hr_late (Suc 0)))"
    by (rule uA [rule_format, THEN conjunct1]) (simp add: len)
  then have e1: "keys (eps ! Suc 0) = stat_names ''ppg'' @ hr_names @ [''Sleep_Stage'']"
    unfolding hr_late_flags cl by (simp add: flag_names_def)
  have "map keys eps = [keys (eps ! 0), keys (eps ! Suc 0)]"
    using len by (intro nth_equalityI) (auto simp: less_Suc_eq numeral_2_eq_2)
  then have hd: "dataframe_columns eps = stat_names ''ppg'' @ [''Sleep_Stage''] @ hr_names"
    unfolding dataframe_columns_def e0 e1 by (simp only: hr_late_header)
  have nc: "\<not> subseq (dataframe_columns eps) (canonical_names True True (columns table_hr_late))"
    unfolding hd cl by (rule hr_late_not_canonical)
  from extract_table_hr_present extract_table_hr_other c f k1' k2' h e len e0 e1 hd nc
  show ?thesis by blast
qed

section \<open>Spectral features are not extracted\<close>

lemma frequency_keys:
  assumes "extract_frequency_features np self rfft signal_data pfx = Inr sp"
  shows "keys sp = map (\<lambda>s. pfx @ s) spectral_suffixes"
  using assms
  by (auto simp: extract_frequency_features_def Let_def keys_def spectral_suffixes_def
      split: sum.splits if_splits)

lemma frequency_keys_spectral:
  assumes "extract_frequency_features np self rfft signal_data pfx = Inr sp"
  shows "\<forall>k \<in> set (keys sp). is_spectral_name k"
  unfolding frequency_keys [OF assms]
  by (auto simp: is_spectral_name_def intro: suffix_appendI)

lemma not_spectral_names:
  "\<forall>k \<in> set imu_names \<union> set ppg_names \<union> {''Sleep_Stage''}. \<not> is_spectral_name k"
  by (simp add: imu_names_def ppg_names_def stat_names_def hr_names_def hrv_names_def
      is_spectral_name_def spectral_suffixes_def suffix_Cons)

lemma canonical_subset:
  "set (canonical_names include_imu include_ppg cols) \<subseteq> set imu_names \<union> set ppg_names \<union> {''Sleep_Stage''}"
  by (auto simp: canonical_names_def ppg_names_def)

text \<open>
  C9.  No feature vector returned by \<open>extract_all_features\<close> holds a spectral feature:
  none of its names ends in \<open>_total_power\<close>, \<open>_dominant_freq\<close>, \<open>_vlf_power\<close>, \<open>_lf_power\<close>,
  \<open>_hf_power\<close> or \<open>_lf_hf_ratio\<close>, for every table and every choice of \<open>include_imu\<close> and
  \<open>include_ppg\<close>, and it shares no name with any result of \<open>extract_frequency_features\<close>,
  whatever the prefix.
\<close>

theorem no_spectral_features:
  assumes "extract_all_features np self find_peaks df include_imu include_ppg = Inr eps"
    and "fv \<in> set eps"
  shows "(\<forall>k \<in> set (keys fv). \<not> is_spectral_name k) \<and>
         (\<forall>np' self' rfft signal_data pfx sp.
            extract_frequency_features np' self' rfft signal_data pfx = Inr sp
              \<longrightarrow> set (keys sp) \<inter> set (keys fv) = {})"
proof -
  from assms(2) obtain i where i: "i < length eps" "fv = eps ! i"
    by (auto simp: in_set_conv_nth)
  have "subseq (keys fv) (canonical_names include_imu include_ppg (columns df))"
    using epoch_names [OF assms(1) i(1)] subseq_flag_names [of include_imu include_ppg "columns df"] i(2)
    by simp
  then have "set (keys fv) \<subseteq> set imu_names \<union> set ppg_names \<union> {''Sleep_Stage''}"
    using canonical_subset subseq_set by blast
  then have 1: "\<forall>k \<in> set (keys fv). \<not> is_spectral_name k"
    using not_spectral_names by blast
  then show ?thesis
    using frequency_keys_spectral by blast
qed

theorem no_spectral_features_witness:
  "extract_all_features lib_exact extractor_1s_2hz find_peaks_short table_hr_present True True
     = Inr [epoch_body lib_exact extractor_1s_2hz find_peaks_short table_hr_present True True] \<and>
   ''ppg_mean'' \<in> set (keys (epoch_body lib_exact extractor_1s_2hz find_peaks_short
                                 table_hr_present True True)) \<and>
   \<not> is_spectral_name ''ppg_mean''"
proof -
  let ?B = "epoch_body lib_exact extractor_1s_2hz find_peaks_short table_hr_present True True :: string fdict"
  have m: "''ppg_mean'' \<in> set (keys ?B)"
    by (simp add: keys_table_hr_present stat_names_def)
  have "?B \<in> set [?B]" by simp
  from no_spectral_features [OF extract_table_hr_present this] m extract_table_hr_present
  show ?thesis by blast
qed

section \<open>Epoch labels\<close>

lemma series_mode_head:
  assumes "series_mode xs = m # rest"
  shows "m \<in> set xs \<and> (\<forall>w \<in> set xs. count_list xs w \<le> count_list xs m) \<and>
         (\<forall>v \<in> set xs. (\<forall>w \<in> set xs. count_list xs w \<le> count_list xs v) \<longrightarrow> m \<le> v)"
proof -
  let ?P = "\<lambda>v. \<forall>w \<in> set xs. count_list xs w \<le> count_list xs v"
  have s: "set (series_mode xs) = {v \<in> set xs. ?P v}"
    by (auto simp: series_mode_def)
  have "sorted (series_mode xs)"
    by (simp add: series_mode_def)
  then have le: "\<forall>v \<in> set (series_mode xs). m \<le> v"
    using assms by auto
  have "m \<in> set (series_mode xs)" using assms by simp
  with s le show ?thesis by auto
qed

lemma init_1_4_0:
  "samples_per_epoch extractor_1s_4hz = 4"
  "step_size extractor_1s_4hz = 4"
  by (simp_all add: extractor_1s_4hz_def)

lemma mode_majority: "series_mode [''W'', ''W'', ''N1'', ''W''] = [''W'']"
  by (simp add: series_mode_def)

lemma mode_tied: "series_mode [''W'', ''W'', ''N1'', ''N1''] = [''N1'', ''W'']"
  by (simp add: series_mode_def)

lemma label_only_table:
  assumes "columns df = [''Sleep_Stage'']" "length (rows df) = 4"
  shows "extract_all_features np extractor_1s_4hz find_peaks df include_imu include_ppg
         = (case series_mode (dropna (map Sleep_Stage (rows df))) of
              [] \<Rightarrow> Inl IndexError | m # _ \<Rightarrow> Inr [[(''Sleep_Stage'', Label m)]])"
  using assms
  by (simp add: extract_all_features_def init_1_4_0 py_range_def extract_epoch_eq iloc_def
      py_slice_def epoch_body_def split: list.splits)

text \<open>
  C4, as stated, fails on a tie: \<open>Series.mode()\<close> returns the tied labels in sorted order,
  so for the rows W, W, N1, N1 the epoch is labelled N1, while the label that occurs first
  among the most frequent ones is W.
\<close>

theorem epoch_label_tie_counterexample:
  "extract_all_features lib_exact extractor_1s_4hz find_peaks_short table_tied_labels True True
     = Inr [[(''Sleep_Stage'', Label ''N1'')]] \<and>
   first_occurrence_mode (dropna (map Sleep_Stage (rows table_tied_labels))) = Some ''W''"
proof -
  have l: "dropna (map Sleep_Stage (rows table_tied_labels)) = [''W'', ''W'', ''N1'', ''N1'']"
    by (simp add: table_tied_labels_def labelled_row_def)
  have "extract_all_features lib_exact extractor_1s_4hz find_peaks_short table_tied_labels True True
     = Inr [[(''Sleep_Stage'', Label ''N1'')]]"
    by (subst label_only_table) (simp_all add: l mode_tied, simp_all add: table_tied_labels_def)
  moreover have "first_occurrence_mode (dropna (map Sleep_Stage (rows table_tied_labels))) = Some ''W''"
    unfolding l by (simp add: first_occurrence_mode_def)
  ultimately show ?thesis by simp
qed

text \<open>
  C4, amended.  For every epoch of a table with a \<open>Sleep_Stage\<close> column, the label of the
  epoch is a most frequent label among the rows of the epoch (a null cell is no label and
  is not counted), and when several labels are tied for most frequent it is the least of
  them in the sort order of the labels.  In particular the rows W, W, N1, W give the
  label W.
\<close>

theorem epoch_label_is_least_mode:
  assumes "extract_all_features np self find_peaks df include_imu include_ppg = Inr eps"
    and "i < length eps" and "''Sleep_Stage'' \<in> set (columns df)"
  shows "\<exists>m. dict_get (eps ! i) ''Sleep_Stage'' = Some (Label m) \<and>
           m \<in> set (epoch_labels self df i) \<and>
           (\<forall>w \<in> set (epoch_labels self df i).
              count_list (epoch_labels self df i) w \<le> count_list (epoch_labels self df i) m) \<and>
           (\<forall>v \<in> set (epoch_labels self df i).
              (\<forall>w \<in> set (epoch_labels self df i).
                 count_list (epoch_labels self df i) w \<le> count_list (epoch_labels self df i) v)
              \<longrightarrow> m \<le> v)"
proof -
  let ?e = "epoch_window self df i"
  let ?B = "epoch_body np self find_peaks ?e include_imu include_ppg"
  have ex: "extract_epoch np self find_peaks df include_imu include_ppg (int i * step_size self) = Inr (eps ! i)"
    by (rule extract_all_features_nth [OF assms(1,2)])
  then obtain m rest where m: "series_mode (epoch_labels self df i) = m # rest"
    and fv: "eps ! i = ?B @ [(''Sleep_Stage'', Label m)]"
    using assms(3)
    by (auto simp: extract_epoch_eq Let_def epoch_labels_def epoch_window_def split: list.splits)
  have "''Sleep_Stage'' \<notin> set (keys ?B)"
    using keys_epoch_body_subset [of np self find_peaks ?e include_imu include_ppg] label_not_feature
    by blast
  then have "dict_get (eps ! i) ''Sleep_Stage'' = Some (Label m)"
    by (simp add: fv dict_get_append dict_get_notin) (simp add: dict_get_def)
  with series_mode_head [OF m] show ?thesis by blast
qed

theorem epoch_label_is_least_mode_witness:
  "extract_all_features lib_exact extractor_1s_4hz find_peaks_short table_majority_labels True True
     = Inr [[(''Sleep_Stage'', Label ''W'')]] \<and>
   (0::nat) < length [[(''Sleep_Stage'', Label ''W'') :: string \<times> string cell]] \<and>
   ''Sleep_Stage'' \<in> set (columns table_majority_labels) \<and>
   epoch_labels extractor_1s_4hz table_majority_labels 0 = [''W'', ''W'', ''N1'', ''W''] \<and>
   dict_get ([[(''Sleep_Stage'', Label ''W'')]] ! 0) ''Sleep_Stage'' = Some (Label ''W'')"
proof -
  have l: "dropna (map Sleep_Stage (rows table_majority_labels)) = [''W'', ''W'', ''N1'', ''W'']"
    by (simp add: table_majority_labels_def labelled_row_def)
  have a: "extract_all_features lib_exact extractor_1s_4hz find_peaks_short table_majority_labels True True
     = Inr [[(''Sleep_Stage'', Label ''W'')]]"
    by (subst label_only_table) (simp_all add: l mode_majority, simp_all add: table_majority_labels_def)
  have c: "''Sleep_Stage'' \<in> set (columns table_majority_labels)"
    by (simp add: table_majority_labels_def)
  have e: "epoch_labels extractor_1s_4hz table_majority_labels 0 = [''W'', ''W'', ''N1'', ''W'']"
    by (simp add: epoch_labels_def epoch_window_def iloc_def init_1_4_0 py_slice_def
        table_majority_labels_def labelled_row_def)
  from epoch_label_is_least_mode [OF a _ c, of 0] a c e show ?thesis
    by (simp add: dict_get_def)
qed

section \<open>Zero crossings\<close>

lemma count_true_diff:
  "np_count_true (np_diff_bool bs) = card {i. Suc i < length bs \<and> bs ! i \<noteq> bs ! Suc i}"
proof -
  have l: "length (np_diff_bool bs) = length bs - 1"
    by (simp add: np_diff_bool_def)
  have n: "np_diff_bool bs ! i = (bs ! Suc i \<noteq> bs ! i)" if "Suc i < length bs" for i
    using that by (simp add: np_diff_bool_def nth_tl nth_butlast)
  have "np_count_true (np_diff_bool bs) = card {i. i < length (np_diff_bool bs) \<and> np_diff_bool bs ! i}"
    by (simp add: np_count_true_def length_filter_conv_card)
  also have "{i. i < length (np_diff_bool bs) \<and> np_diff_bool bs ! i}
             = {i. Suc i < length bs \<and> bs ! i \<noteq> bs ! Suc i}"
    using n l by auto
  finally show ?thesis .
qed

lemma fl_signbit_sub:
  assumes "\<forall>r. r \<noteq> 0 \<longrightarrow> fl_signbit (rd r) = (r < 0)" and "fl_finite x" and "fl_finite m"
  shows "fl_signbit (fl_sub rd x m) = centred_signbit x m"
proof (cases x)
  case (Fin a)
  show ?thesis
  proof (cases m)
    case (Fin b)
    with \<open>x = Fin a\<close> assms(1) show ?thesis
      by (auto simp: fl_sub_def fl_add_def fl_zero_def centred_signbit_def)
  next
    case NegZero
    with \<open>x = Fin a\<close> assms(1) show ?thesis
      by (auto simp: fl_sub_def fl_add_def fl_zero_def centred_signbit_def)
  qed (use assms(3) in simp_all)
next
  case NegZero
  show ?thesis
  proof (cases m)
    case (Fin b)
    with \<open>x = NegZero\<close> assms(1) show ?thesis
      by (auto simp: fl_sub_def fl_add_def fl_zero_def centred_signbit_def)
  next
    case NegZero
    with \<open>x = NegZero\<close> show ?thesis
      by (simp add: fl_sub_def fl_add_def fl_zero_def centred_signbit_def)
  qed (use assms(3) in simp_all)
qed (use assms(2) in simp_all)

lemma zero_crossings_count:
  assumes "\<forall>r. r \<noteq> 0 \<longrightarrow> fl_signbit (rd r) = (r < 0)" and "\<forall>x \<in> set xs. fl_finite x"
    and "fl_finite m"
  shows "np_count_true (np_diff_bool (map fl_signbit (map (\<lambda>x. fl_sub rd x m) xs)))
           = card (sign_changes xs m)"
proof -
  have s: "fl_signbit (fl_sub rd (xs ! i) m) = centred_signbit (xs ! i) m" if "i < length xs" for i
    using that assms by (intro fl_signbit_sub) auto
  have "{i. Suc i < length (map fl_signbit (map (\<lambda>x. fl_sub rd x m) xs)) \<and>
            map fl_signbit (map (\<lambda>x. fl_sub rd x m) xs) ! i
              \<noteq> map fl_signbit (map (\<lambda>x. fl_sub rd x m) xs) ! Suc i}
        = sign_changes xs m"
    using s by (auto simp: sign_changes_def)
  then show ?thesis
    by (simp only: count_true_diff)
qed

lemma dict_get_zero_crossings:
  assumes "drop_nan signal_data \<noteq> []"
  shows "dict_get (compute_statistical_features np signal_data pfx) (pfx @ ''_zero_crossings'')
         = Some (Num (Fin (real (np_count_true (np_diff_bool (map fl_signbit
               (map (\<lambda>x. fl_sub (lib_round np) x (lib_mean np (drop_nan signal_data)))
                  (drop_nan signal_data))))))))"
  using assms
  by (simp add: compute_statistical_features_eq Let_def dict_get_def del: map_map)

lemma zero_crossings_replicate:
  "np_count_true (np_diff_bool (map f (replicate n c))) = 0"
proof -
  have "{i. Suc i < length (map f (replicate n c)) \<and>
            map f (replicate n c) ! i \<noteq> map f (replicate n c) ! Suc i} = {}"
    by auto
  then show ?thesis
    by (simp only: count_true_diff card.empty)
qed

lemma np_mean_replicate: "n > 0 \<Longrightarrow> np_mean (replicate n c) = c"
  by (simp add: np_mean_def sum_list_replicate)

text \<open>
  C10, as stated, fails on the negative zero.  The samples \<open>0.0, -0.0, 0.0\<close> are all equal
  to their mean \<open>0.0\<close> and form a constant sequence, but \<open>-0.0 - 0.0\<close> is \<open>-0.0\<close>, whose sign
  bit is set: the feature is 2, not 0.
\<close>

theorem zero_crossings_negative_zero_counterexample:
  "lib_mean lib_exact [Fin 0, NegZero, Fin 0] = Fin 0 \<and>
   map fl_val [Fin 0, NegZero, Fin 0] = [0, 0, 0] \<and>
   dict_get (compute_statistical_features lib_exact [Fin 0, NegZero, Fin 0] ''ppg'' :: string fdict)
      ''ppg_zero_crossings'' = Some (Num (Fin 2))"
  by (simp add: compute_statistical_features_eq dict_get_def np_count_true_def np_diff_bool_def
      drop_nan_def lib_exact_simps exact_reduce_def np_mean_def fl_sub_def fl_add_def fl_zero_def
      Let_def)

text \<open>
  C10, amended.  The zero-crossings feature is the number of adjacent pairs of the
  NaN-filtered samples whose centred values differ in sign bit, where the centre is the
  mean that numpy computes.  For finite samples and a finite mean, the sign bit of a
  centred sample is set exactly when the sample is below the mean, or is \<open>-0.0\<close> against a
  mean \<open>+0.0\<close>; every other sample equal to the mean has sign bit false.  So samples that
  are all at or above the mean, none of them \<open>-0.0\<close>, give the count 0 (touching the mean
  from above is no crossing), and a sequence of identical samples has zero crossings 0.
  The rounding is assumed to keep the sign of a difference that is not zero.
\<close>

theorem zero_crossings_sign_changes:
  "(drop_nan signal_data \<noteq> [] \<and> (\<exists>n c. drop_nan signal_data = replicate n c) \<longrightarrow>
      dict_get (compute_statistical_features np signal_data pfx) (pfx @ ''_zero_crossings'')
        = Some (Num (Fin 0))) \<and>
   ((\<forall>r. r \<noteq> 0 \<longrightarrow> fl_signbit (lib_round np r) = (r < 0)) \<and>
    drop_nan signal_data \<noteq> [] \<and> (\<forall>x \<in> set (drop_nan signal_data). fl_finite x) \<and>
    fl_finite (lib_mean np (drop_nan signal_data)) \<longrightarrow>
      dict_get (compute_statistical_features np signal_data pfx) (pfx @ ''_zero_crossings'')
        = Some (Num (Fin (real (card (sign_changes (drop_nan signal_data)
                                        (lib_mean np (drop_nan signal_data))))))) \<and>
      ((\<forall>x \<in> set (drop_nan signal_data).
           fl_val (lib_mean np (drop_nan signal_data)) \<le> fl_val x \<and> x \<noteq> NegZero) \<longrightarrow>
         dict_get (compute_statistical_features np signal_data pfx) (pfx @ ''_zero_crossings'')
           = Some (Num (Fin 0))))"
proof (intro conjI impI)
  assume "drop_nan signal_data \<noteq> [] \<and> (\<exists>n c. drop_nan signal_data = replicate n c)"
  then obtain n c where ne: "drop_nan signal_data \<noteq> []" and r: "drop_nan signal_data = replicate n c"
    by blast
  show "dict_get (compute_statistical_features np signal_data pfx) (pfx @ ''_zero_crossings'')
        = Some (Num (Fin 0))"
    unfolding dict_get_zero_crossings [OF ne] r
    by (simp only: map_replicate zero_crossings_replicate [of "\<lambda>x. x", simplified]) simp
next
  assume a: "(\<forall>r. r \<noteq> 0 \<longrightarrow> fl_signbit (lib_round np r) = (r < 0)) \<and>
    drop_nan signal_data \<noteq> [] \<and> (\<forall>x \<in> set (drop_nan signal_data). fl_finite x) \<and>
    fl_finite (lib_mean np (drop_nan signal_data))"
  then have ne: "drop_nan signal_data \<noteq> []" by blast
  from a have c: "np_count_true (np_diff_bool (map fl_signbit
               (map (\<lambda>x. fl_sub (lib_round np) x (lib_mean np (drop_nan signal_data)))
                  (drop_nan signal_data))))
          = card (sign_changes (drop_nan signal_data) (lib_mean np (drop_nan signal_data)))"
    by (intro zero_crossings_count) blast+
  show v: "dict_get (compute_statistical_features np signal_data pfx) (pfx @ ''_zero_crossings'')
        = Some (Num (Fin (real (card (sign_changes (drop_nan signal_data)
                                        (lib_mean np (drop_nan signal_data)))))))"
    unfolding dict_get_zero_crossings [OF ne] c ..
  assume "\<forall>x \<in> set (drop_nan signal_data).
           fl_val (lib_mean np (drop_nan signal_data)) \<le> fl_val x \<and> x \<noteq> NegZero"
  then have "\<not> centred_signbit (drop_nan signal_data ! i) (lib_mean np (drop_nan signal_data))"
    if "i < length (drop_nan signal_data)" for i
    using nth_mem [OF that] by (auto simp: centred_signbit_def)
  then have "sign_changes (drop_nan signal_data) (lib_mean np (drop_nan signal_data)) = {}"
    by (auto simp: sign_changes_def)
  with v show "dict_get (compute_statistical_features np signal_data pfx) (pfx @ ''_zero_crossings'')
           = Some (Num (Fin 0))"
    by simp
qed

theorem zero_crossings_sign_changes_witness:
  "drop_nan [Fin 3, NaN, Fin 2, Fin 3, Fin 0] = [Fin 3, Fin 2, Fin 3, Fin 0] \<and>
   lib_mean lib_exact [Fin 3, Fin 2, Fin 3, Fin 0] = Fin 2 \<and>
   dict_get (compute_statistical_features lib_exact [Fin 3, NaN, Fin 2, Fin 3, Fin 0] ''ppg'' :: string fdict)
      ''ppg_zero_crossings'' = Some (Num (Fin 1)) \<and>
   card (sign_changes [Fin 3, Fin 2, Fin 3, Fin 0] (Fin 2)) = 1 \<and>
   drop_nan [Fin 5, NaN, Fin 5, Fin 5] = replicate 3 (Fin 5) \<and>
   dict_get (compute_statistical_features lib_exact [Fin 5, NaN, Fin 5, Fin 5] ''ppg'' :: string fdict)
      ''ppg_zero_crossings'' = Some (Num (Fin 0))"
proof -
  let ?xs = "[Fin 3, NaN, Fin 2, Fin 3, Fin 0]"
  have sgn: "\<forall>r. r \<noteq> 0 \<longrightarrow> fl_signbit (lib_round lib_exact r) = (r < 0)"
    by (simp add: lib_exact_simps)
  have d: "drop_nan ?xs = [Fin 3, Fin 2, Fin 3, Fin 0]"
    by (simp add: drop_nan_def)
  have m: "lib_mean lib_exact [Fin 3, Fin 2, Fin 3, Fin 0] = Fin 2"
    by (simp add: lib_exact_simps exact_reduce_def np_mean_def)
  have ne: "drop_nan ?xs \<noteq> []" and fin: "\<forall>x \<in> set (drop_nan ?xs). fl_finite x"
    and fm: "fl_finite (lib_mean lib_exact (drop_nan ?xs))"
    by (simp_all add: d m)
  note t = zero_crossings_sign_changes [of ?xs lib_exact "''ppg''", where ?'a = string]
  from t sgn ne fin fm
  have v: "dict_get (compute_statistical_features lib_exact ?xs ''ppg'' :: string fdict) (''ppg'' @ ''_zero_crossings'')
        = Some (Num (Fin (real (card (sign_changes (drop_nan ?xs) (lib_mean lib_exact (drop_nan ?xs)))))))"
    by blast
  have e: "dict_get (compute_statistical_features lib_exact ?xs ''ppg'' :: string fdict) (''ppg'' @ ''_zero_crossings'')
        = Some (Num (Fin 1))"
    by (simp add: compute_statistical_features_eq dict_get_def np_count_true_def np_diff_bool_def
      d m lib_exact_simps(1) fl_sub_def fl_add_def fl_zero_def Let_def)
  from v e have c: "card (sign_changes [Fin 3, Fin 2, Fin 3, Fin 0] (Fin 2)) = 1"
    by (simp add: d m)
  from e have e': "dict_get (compute_statistical_features lib_exact ?xs ''ppg'' :: string fdict)
      ''ppg_zero_crossings'' = Some (Num (Fin 1))"
    by simp
  let ?ys = "[Fin 5, NaN, Fin 5, Fin 5]"
  have d5: "drop_nan ?ys = replicate 3 (Fin 5)"
    by (simp add: drop_nan_def numeral_3_eq_3)
  then have n5: "drop_nan ?ys \<noteq> []" and r5: "\<exists>n c. drop_nan ?ys = replicate n c"
    by (simp, blast)
  note u = zero_crossings_sign_changes [of ?ys lib_exact "''ppg''", where ?'a = string]
  from u n5 r5
  have "dict_get (compute_statistical_features lib_exact ?ys ''ppg'' :: string fdict) (''ppg'' @ ''_zero_crossings'')
        = Some (Num (Fin 0))"
    by blast
  then have z: "dict_get (compute_statistical_features lib_exact ?ys ''ppg'' :: string fdict)
      ''ppg_zero_crossings'' = Some (Num (Fin 0))"
    by simp
  from d m e' c d5 z show ?thesis by blast
qed

section \<open>Properties of the heart-rate variability features\<close>

lemma valid_band: "fl_gt x 300 \<Longrightarrow> fl_lt x 2000 \<Longrightarrow> 300 < fl_val x \<and> fl_val x < 2000"
  by (cases x) auto

lemma moment_replicate: "n > 0 \<Longrightarrow> k > 0 \<Longrightarrow> moment k (replicate n c) = 0"
  by (simp add: moment_def np_mean_replicate np_mean_def sum_list_replicate)

lemma np_std_replicate: "n > 0 \<Longrightarrow> np_std (replicate n c) = 0"
  by (simp add: np_std_def moment_replicate)

lemma np_diff_replicate: "np_diff (replicate n (c::real)) = replicate (n - 1) 0"
proof (cases n)
  case 0
  then show ?thesis by (simp add: np_diff_def)
next
  case (Suc m)
  have "tl (replicate (Suc m) c) = replicate m c" by simp
  moreover have "replicate (Suc m) c = replicate m c @ [c]"
    by (simp add: replicate_append_same)
  then have "butlast (replicate (Suc m) c) = replicate m c"
    by (simp only: butlast_snoc)
  ultimately show ?thesis
    using Suc by (simp add: np_diff_def zip_replicate del: replicate_Suc)
qed

lemma not_hrv_prefix: "k \<in> set (stat_names ''ppg'') \<union> set hr_names \<Longrightarrow> \<not> prefix ''hrv_'' k"
  by (auto simp: stat_names_def hr_names_def)

lemma not_hrv_prefix_other: "k \<in> set imu_names \<union> {''Sleep_Stage''} \<Longrightarrow> \<not> prefix ''hrv_'' k"
  by (auto simp: imu_names_def stat_names_def)

lemma epoch_hrv_keys_iff:
  assumes "extract_all_features np self find_peaks df include_imu include_ppg = Inr eps" and "i < length eps"
  shows "(\<exists>k \<in> set (keys (eps ! i)). prefix ''hrv_'' k) \<longleftrightarrow>
         include_ppg \<and> ''BVP'' \<in> set (columns df) \<and> hrv_available np self find_peaks (epoch_window self df i)"
proof
  let ?a = "include_ppg \<and> ''BVP'' \<in> set (columns df) \<and> hrv_available np self find_peaks (epoch_window self df i)"
  assume "\<exists>k \<in> set (keys (eps ! i)). prefix ''hrv_'' k"
  then obtain k where k: "k \<in> set (keys (eps ! i))" "prefix ''hrv_'' k" by blast
  show ?a
  proof (rule ccontr)
    assume "\<not> ?a"
    with k(1) have "k \<in> set imu_names \<union> {''Sleep_Stage''} \<or> k \<in> set (stat_names ''ppg'') \<union> set hr_names"
      unfolding epoch_names [OF assms] flag_names_def group_flags_def imu_names_def
      by (auto split: if_splits)
    with k(2) not_hrv_prefix not_hrv_prefix_other show False by blast
  qed
next
  assume "include_ppg \<and> ''BVP'' \<in> set (columns df) \<and> hrv_available np self find_peaks (epoch_window self df i)"
  then have "''hrv_sdnn'' \<in> set (keys (eps ! i))"
    unfolding epoch_names [OF assms] flag_names_def group_flags_def
    by (simp add: hrv_names_def)
  moreover have "prefix ''hrv_'' ''hrv_sdnn''" by simp
  ultimately show "\<exists>k \<in> set (keys (eps ! i)). prefix ''hrv_'' k" by blast
qed

lemma compute_hrv_features_values:
  assumes "length ibi \<ge> 2 \<and> length (valid_ibi ibi) \<ge> 2"
  shows "keys (compute_hrv_features ibi :: 'l fdict) = hrv_names"
    and "dict_get (compute_hrv_features ibi :: 'l fdict) ''hrv_mean_ibi'' = Some (Num (Fin (np_mean (valid_ibi ibi))))"
    and "dict_get (compute_hrv_features ibi :: 'l fdict) ''hrv_sdnn'' = Some (Num (Fin (np_std (valid_ibi ibi))))"
    and "dict_get (compute_hrv_features ibi :: 'l fdict) ''hrv_rmssd''
           = Some (Num (Fin (sqrt (np_mean (map (\<lambda>x. x ^ 2) (np_diff (valid_ibi ibi)))))))"
    and "dict_get (compute_hrv_features ibi :: 'l fdict) ''hrv_pnn50''
           = Some (Num (Fin (real (np_count_true (map (\<lambda>x. \<bar>x\<bar> > 50) (np_diff (valid_ibi ibi))))
                            / real (length (np_diff (valid_ibi ibi))) * 100)))"
    and "dict_get (compute_hrv_features ibi :: 'l fdict) ''hrv_pnn20''
           = Some (Num (Fin (real (np_count_true (map (\<lambda>x. \<bar>x\<bar> > 20) (np_diff (valid_ibi ibi))))
                            / real (length (np_diff (valid_ibi ibi))) * 100)))"
proof -
  show "keys (compute_hrv_features ibi :: 'l fdict) = hrv_names"
    using assms by (simp add: keys_compute_hrv_features)
qed (use assms in \<open>simp_all add: compute_hrv_features_eq Let_def dict_get_def\<close>)

lemma hrv_constant_intervals:
  assumes "length ibi \<ge> 2" "n \<ge> 2" "valid_ibi ibi = replicate n c"
  shows "dict_get (compute_hrv_features ibi :: 'l fdict) ''hrv_sdnn'' = Some (Num (Fin 0))"
    and "dict_get (compute_hrv_features ibi :: 'l fdict) ''hrv_rmssd'' = Some (Num (Fin 0))"
proof -
  have a: "length ibi \<ge> 2 \<and> length (valid_ibi ibi) \<ge> 2"
    using assms by simp
  have "np_std (valid_ibi ibi) = 0"
    using assms by (simp add: np_std_replicate)
  then show "dict_get (compute_hrv_features ibi :: 'l fdict) ''hrv_sdnn'' = Some (Num (Fin 0))"
    using compute_hrv_features_values(3) [OF a] by simp
  have "np_mean (map (\<lambda>x. x ^ 2) (np_diff (replicate n c))) = 0"
    by (simp add: np_diff_replicate np_mean_def sum_list_replicate)
  then show "dict_get (compute_hrv_features ibi :: 'l fdict) ''hrv_rmssd'' = Some (Num (Fin 0))"
    using compute_hrv_features_values(4) [OF a] assms(3) by simp
qed

lemma init_4_5_0:
  "samples_per_epoch extractor_4s_5hz = 20"
  "step_size extractor_4s_5hz = 20"
  "fs extractor_4s_5hz = 5"
  by (simp_all add: extractor_4s_5hz_def)

lemma five_peaks_window:
  "map BVP (rows (epoch_window extractor_4s_5hz table_five_peaks 0))
     = map Fin [0, 0, 1, 0, 0, 0, 1, 0, 0, 0, 1, 0, 0, 0, 1, 0, 0, 0, 1, 0]"
  by (simp add: epoch_window_def iloc_def init_4_5_0 py_slice_def table_five_peaks_def pulse_row_def)

lemma five_peaks_detected:
  "\<exists>vals. detect_ppg_peaks lib_exact local_maxima (map Fin [0, 0, 1, 0, 0, 0, 1, 0, 0, 0, 1, 0, 0, 0, 1, 0, 0, 0, 1, 0]) 5 double_0_4
     = Inr ([2, 6, 10, 14, 18], vals)"
proof -
  have m: "py_int_fl (fl_mul (lib_round lib_exact) (Fin double_0_4) (Fin 5)) = Inr 2"
    by (simp add: lib_exact_simps fl_mul_def double_0_4_def py_int_def)
  show ?thesis
    unfolding detect_ppg_peaks_def m
    by (simp add: local_maxima_def fl_less_def upt_rec numeral_nat)
qed

lemma five_peaks_ibi:
  "compute_ibi_from_peaks lib_exact [2, 6, 10, 14, 18] 5 = replicate 4 (Fin 800)"
  by (simp add: compute_ibi_from_peaks_def np_diff_def fl_div_def fl_mul_def fl_of_int_def
      lib_exact_simps numeral_nat)

lemma valid_ibi_with_outliers: "valid_ibi ibi_with_outliers = replicate 3 800"
  by (simp add: valid_ibi_def ibi_with_outliers_def numeral_nat)

text \<open>
  C2.  The feature vector of an epoch holds \<open>hrv_*\<close> names exactly when the pulse group is
  extracted, more than two pulse peaks are detected and at least two inter-beat intervals
  remain after every interval at or below 300 ms or at or above 2000 ms is removed;
  otherwise no \<open>hrv_*\<close> name is present.  The statistics \<open>mean_ibi\<close>, \<open>sdnn\<close>, \<open>rmssd\<close>, \<open>pnn50\<close>
  and \<open>pnn20\<close> are computed from the remaining intervals only, and when these are all
  exactly 800 ms, \<open>hrv_sdnn = 0\<close> and \<open>hrv_rmssd = 0\<close>.
\<close>

theorem hrv_features_filtered:
  "(extract_all_features np self find_peaks df include_imu include_ppg = Inr eps \<and> i < length eps \<longrightarrow>
      ((\<exists>k \<in> set (keys (eps ! i)). prefix ''hrv_'' k) \<longleftrightarrow>
       include_ppg \<and> ''BVP'' \<in> set (columns df) \<and>
       (\<exists>peaks vals.
          detect_ppg_peaks np find_peaks (map BVP (rows (epoch_window self df i))) (fs self) double_0_4
             = Inr (peaks, vals) \<and>
          length peaks > 2 \<and> length (valid_ibi (compute_ibi_from_peaks np peaks (fs self))) \<ge> 2))) \<and>
   (length short < 2 \<or> length (valid_ibi short) < 2 \<longrightarrow> (compute_hrv_features short :: 'l fdict) = []) \<and>
   (length ibi \<ge> 2 \<and> length (valid_ibi ibi) \<ge> 2 \<longrightarrow>
      keys (compute_hrv_features ibi :: 'l fdict) = hrv_names \<and>
      (\<forall>x \<in> set (valid_ibi ibi). 300 < x \<and> x < 2000) \<and>
      dict_get (compute_hrv_features ibi :: 'l fdict) ''hrv_mean_ibi'' = Some (Num (Fin (np_mean (valid_ibi ibi)))) \<and>
      dict_get (compute_hrv_features ibi :: 'l fdict) ''hrv_sdnn'' = Some (Num (Fin (np_std (valid_ibi ibi)))) \<and>
      dict_get (compute_hrv_features ibi :: 'l fdict) ''hrv_rmssd''
        = Some (Num (Fin (sqrt (np_mean (map (\<lambda>x. x ^ 2) (np_diff (valid_ibi ibi))))))) \<and>
      dict_get (compute_hrv_features ibi :: 'l fdict) ''hrv_pnn50''
        = Some (Num (Fin (real (np_count_true (map (\<lambda>x. \<bar>x\<bar> > 50) (np_diff (valid_ibi ibi))))
                            / real (length (np_diff (valid_ibi ibi))) * 100))) \<and>
      dict_get (compute_hrv_features ibi :: 'l fdict) ''hrv_pnn20''
        = Some (Num (Fin (real (np_count_true (map (\<lambda>x. \<bar>x\<bar> > 20) (np_diff (valid_ibi ibi))))
                            / real (length (np_diff (valid_ibi ibi))) * 100)))) \<and>
   (length ibi \<ge> 2 \<and> n \<ge> 2 \<and> valid_ibi ibi = replicate n 800 \<longrightarrow>
      dict_get (compute_hrv_features ibi :: 'l fdict) ''hrv_sdnn'' = Some (Num (Fin 0)) \<and>
      dict_get (compute_hrv_features ibi :: 'l fdict) ''hrv_rmssd'' = Some (Num (Fin 0)))"
proof (intro conjI impI)
  assume a: "extract_all_features np self find_peaks df include_imu include_ppg = Inr eps \<and> i < length eps"
  have "hrv_available np self find_peaks (epoch_window self df i) \<longleftrightarrow>
      (\<exists>peaks vals.
          detect_ppg_peaks np find_peaks (map BVP (rows (epoch_window self df i))) (fs self) double_0_4
             = Inr (peaks, vals) \<and>
          length peaks > 2 \<and> length (valid_ibi (compute_ibi_from_peaks np peaks (fs self))) \<ge> 2)"
    by (auto simp: hrv_available_def split: sum.splits prod.splits)
  with epoch_hrv_keys_iff [of np self find_peaks df include_imu include_ppg eps i] a
  show "(\<exists>k \<in> set (keys (eps ! i)). prefix ''hrv_'' k) \<longleftrightarrow>
       include_ppg \<and> ''BVP'' \<in> set (columns df) \<and>
       (\<exists>peaks vals.
          detect_ppg_peaks np find_peaks (map BVP (rows (epoch_window self df i))) (fs self) double_0_4
             = Inr (peaks, vals) \<and>
          length peaks > 2 \<and> length (valid_ibi (compute_ibi_from_peaks np peaks (fs self))) \<ge> 2)"
    by simp
next
  assume "length short < 2 \<or> length (valid_ibi short) < 2"
  then show "(compute_hrv_features short :: 'l fdict) = []"
    by (auto simp: compute_hrv_features_eq)
next
  assume a: "length ibi \<ge> 2 \<and> length (valid_ibi ibi) \<ge> 2"
  note v = compute_hrv_features_values [OF a]
  show "keys (compute_hrv_features ibi :: 'l fdict) = hrv_names" by (rule v(1))
  show "\<forall>x \<in> set (valid_ibi ibi). 300 < x \<and> x < 2000"
    using valid_band by (auto simp: valid_ibi_def)
  show "dict_get (compute_hrv_features ibi :: 'l fdict) ''hrv_mean_ibi'' = Some (Num (Fin (np_mean (valid_ibi ibi))))"
    by (rule v(2))
  show "dict_get (compute_hrv_features ibi :: 'l fdict) ''hrv_sdnn'' = Some (Num (Fin (np_std (valid_ibi ibi))))"
    by (rule v(3))
  show "dict_get (compute_hrv_features ibi :: 'l fdict) ''hrv_rmssd''
        = Some (Num (Fin (sqrt (np_mean (map (\<lambda>x. x ^ 2) (np_diff (valid_ibi ibi)))))))"
    by (rule v(4))
  show "dict_get (compute_hrv_features ibi :: 'l fdict) ''hrv_pnn50''
        = Some (Num (Fin (real (np_count_true (map (\<lambda>x. \<bar>x\<bar> > 50) (np_diff (valid_ibi ibi))))
                            / real (length (np_diff (valid_ibi ibi))) * 100)))"
    by (rule v(5))
  show "dict_get (compute_hrv_features ibi :: 'l fdict) ''hrv_pnn20''
        = Some (Num (Fin (real (np_count_true (map (\<lambda>x. \<bar>x\<bar> > 20) (np_diff (valid_ibi ibi))))
                            / real (length (np_diff (valid_ibi ibi))) * 100)))"
    by (rule v(6))
next
  assume a: "length ibi \<ge> 2 \<and> n \<ge> 2 \<and> valid_ibi ibi = replicate n 800"
  then show "dict_get (compute_hrv_features ibi :: 'l fdict) ''hrv_sdnn'' = Some (Num (Fin 0))"
    using hrv_constant_intervals(1) [of ibi n 800] by simp
  from a show "dict_get (compute_hrv_features ibi :: 'l fdict) ''hrv_rmssd'' = Some (Num (Fin 0))"
    using hrv_constant_intervals(2) [of ibi n 800] by simp
qed

theorem hrv_features_filtered_witness:
  "\<exists>eps. extract_all_features lib_exact extractor_4s_5hz local_maxima table_five_peaks True True = Inr eps \<and>
     0 < length eps \<and>
     (\<exists>k \<in> set (keys (eps ! 0)). prefix ''hrv_'' k) \<and>
     length (valid_ibi [Fin 800, Fin 250, Fin 2500]) < 2 \<and>
     (compute_hrv_features [Fin 800, Fin 250, Fin 2500] :: string fdict) = [] \<and>
     2 \<le> length ibi_with_outliers \<and> 2 \<le> length (valid_ibi ibi_with_outliers) \<and>
     (2::nat) \<le> 3 \<and> valid_ibi ibi_with_outliers = replicate 3 800 \<and>
     dict_get (compute_hrv_features ibi_with_outliers :: string fdict) ''hrv_mean_ibi'' = Some (Num (Fin 800)) \<and>
     dict_get (compute_hrv_features ibi_with_outliers :: string fdict) ''hrv_sdnn'' = Some (Num (Fin 0)) \<and>
     dict_get (compute_hrv_features ibi_with_outliers :: string fdict) ''hrv_rmssd'' = Some (Num (Fin 0))"
proof -
  let ?cfg = "extractor_4s_5hz"
  have h: "1 \<le> step_size ?cfg" "0 \<le> samples_per_epoch ?cfg"
    by (simp_all add: init_4_5_0)
  have lab: "''Sleep_Stage'' \<in> set (columns table_five_peaks) \<longrightarrow>
           (\<forall>i. int i * step_size ?cfg + samples_per_epoch ?cfg \<le> int (length (rows table_five_peaks))
                  \<longrightarrow> epoch_labels ?cfg table_five_peaks i \<noteq> [])"
    by (simp add: table_five_peaks_def)
  have n: "int (length (rows table_five_peaks)) = 20"
    by (simp add: table_five_peaks_def)
  from extract_all_features_total [OF h lab, of lib_exact local_maxima True True]
  obtain eps where e: "extract_all_features lib_exact ?cfg local_maxima table_five_peaks True True = Inr eps"
    and l: "length eps = (if samples_per_epoch ?cfg \<le> int (length (rows table_five_peaks))
                         then nat ((int (length (rows table_five_peaks)) - samples_per_epoch ?cfg)
                                div step_size ?cfg) + 1
                         else 0)"
    by blast
  from l have len: "0 < length eps"
    unfolding n init_4_5_0 by simp
  have c: "''BVP'' \<in> set (columns table_five_peaks)"
    by (simp add: table_five_peaks_def)
  obtain vals where d: "detect_ppg_peaks lib_exact local_maxima
       (map BVP (rows (epoch_window ?cfg table_five_peaks 0))) (fs ?cfg) double_0_4 = Inr ([2, 6, 10, 14, 18], vals)"
    using five_peaks_detected unfolding five_peaks_window init_4_5_0 by blast
  have v: "length (valid_ibi (compute_ibi_from_peaks lib_exact [2, 6, 10, 14, 18] (fs ?cfg))) \<ge> 2"
    unfolding init_4_5_0 five_peaks_ibi by (simp add: valid_ibi_def numeral_nat)
  have s: "length (valid_ibi [Fin 800, Fin 250, Fin 2500]) < 2"
    by (simp add: valid_ibi_def)
  have o: "2 \<le> length ibi_with_outliers" "2 \<le> length (valid_ibi ibi_with_outliers)"
    by (simp_all add: valid_ibi_with_outliers) (simp add: ibi_with_outliers_def)
  have m: "np_mean (replicate 3 800) = 800"
    by (simp add: np_mean_replicate)
  note t = hrv_features_filtered [of lib_exact ?cfg local_maxima table_five_peaks True True eps 0
      "[Fin 800, Fin 250, Fin 2500]" ibi_with_outliers 3, where ?'l = string]
  from t e len c d v have 1: "\<exists>k \<in> set (keys (eps ! 0)). prefix ''hrv_'' k"
    by fastforce
  from t s have 2: "(compute_hrv_features [Fin 800, Fin 250, Fin 2500] :: string fdict) = []"
    by blast
  from t o have "dict_get (compute_hrv_features ibi_with_outliers :: string fdict) ''hrv_mean_ibi''
        = Some (Num (Fin (np_mean (valid_ibi ibi_with_outliers))))"
    by blast
  then have 3: "dict_get (compute_hrv_features ibi_with_outliers :: string fdict) ''hrv_mean_ibi''
        = Some (Num (Fin 800))"
    by (simp only: valid_ibi_with_outliers m)
  have three: "(2::nat) \<le> 3" by simp
  from t o(1) three valid_ibi_with_outliers
  have 4: "dict_get (compute_hrv_features ibi_with_outliers :: string fdict) ''hrv_sdnn'' = Some (Num (Fin 0))"
    "dict_get (compute_hrv_features ibi_with_outliers :: string fdict) ''hrv_rmssd'' = Some (Num (Fin 0))"
    by blast+
  from e len 1 s 2 o 3 4 valid_ibi_with_outliers three show ?thesis
    by blast
qed
section \<open>Constant signals\<close>

lemma drop_nan_replicate: "c \<noteq> NaN \<Longrightarrow> drop_nan (replicate n c) = replicate n c"
  by (simp add: drop_nan_def)

lemma np_diff_fl_replicate: "np_diff_fl rd (replicate n c) = replicate (n - 1) (fl_sub rd c c)"
proof (cases n)
  case 0
  then show ?thesis by (simp add: np_diff_fl_def)
next
  case (Suc m)
  have "tl (replicate (Suc m) c) = replicate m c" by simp
  moreover have "replicate (Suc m) c = replicate m c @ [c]"
    by (simp add: replicate_append_same)
  then have "butlast (replicate (Suc m) c) = replicate m c"
    by (simp only: butlast_snoc)
  ultimately show ?thesis
    using Suc by (simp add: np_diff_fl_def zip_replicate del: replicate_Suc)
qed

lemma dict_get_stat:
  assumes "drop_nan signal_data \<noteq> []"
  shows "dict_get (compute_statistical_features np signal_data pfx) (pfx @ ''_std'')
           = Some (Num (lib_std np (drop_nan signal_data)))"
    and "dict_get (compute_statistical_features np signal_data pfx) (pfx @ ''_skew'')
           = Some (Num (if fl_gt (lib_std np (drop_nan signal_data)) 0
                        then lib_skew np (drop_nan signal_data) else Fin 0))"
    and "dict_get (compute_statistical_features np signal_data pfx) (pfx @ ''_kurtosis'')
           = Some (Num (if fl_gt (lib_std np (drop_nan signal_data)) 0
                        then lib_kurtosis np (drop_nan signal_data) else Fin 0))"
  using assms
  by (simp_all add: compute_statistical_features_eq Let_def dict_get_def)

lemma dict_get_imu_mag:
  assumes "''ACC_X'' \<in> set (columns e)" "''ACC_Y'' \<in> set (columns e)" "''ACC_Z'' \<in> set (columns e)"
    and "k \<in> set (stat_names ''imu_mag'')"
  shows "dict_get (extract_imu_features np e) k
         = dict_get (compute_statistical_features np (magnitude_of (lib_round np) (rows e)) ''imu_mag'') k"
proof -
  have n: "k \<notin> set (stat_names ''imu_x'')" "k \<notin> set (stat_names ''imu_y'')" "k \<notin> set (stat_names ''imu_z'')"
    using imu_names_disjoint(3) assms(4) by auto
  have x: "dict_get (compute_statistical_features np xs p) k = None" if "k \<notin> set (stat_names p)" for xs p
    using that keys_stat_subset [of np xs p] by (intro dict_get_notin) blast
  have t: "dict_get (imu_tail np m) k = None" for m
    using assms(4) by (intro dict_get_notin) (auto simp: imu_tail_def keys_def stat_names_def)
  show ?thesis
    unfolding extract_imu_features_eq [OF assms(1-3)]
    by (simp add: dict_get_append x [OF n(1)] x [OF n(2)] x [OF n(3)] t split: option.splits)
qed

lemma dict_get_imu_activity:
  assumes "''ACC_X'' \<in> set (columns e)" "''ACC_Y'' \<in> set (columns e)" "''ACC_Z'' \<in> set (columns e)"
  shows "dict_get (extract_imu_features np e) ''imu_activity_count''
         = Some (Num (lib_sum np (map fl_abs (np_diff_fl (lib_round np) (magnitude_of (lib_round np) (rows e))))))"
proof -
  have x: "dict_get (compute_statistical_features np xs p) ''imu_activity_count'' = None"
    if "p \<in> {''imu_x'', ''imu_y'', ''imu_z'', ''imu_mag''}" for xs p
    using that keys_stat_subset [of np xs p]
    by (intro dict_get_notin) (auto simp: stat_names_def)
  show ?thesis
    unfolding extract_imu_features_eq [OF assms(1-3)]
    by (simp add: dict_get_append x) (simp add: dict_get_def imu_tail_def)
qed

lemma rd_tenths_values:
  "rd_tenths (double_0_1 * double_0_1) = Fin double_0_1_sq"
  "rd_tenths double_0_1_sq = Fin double_0_1_sq"
  "rd_tenths (sqrt double_0_1_sq) = Fin double_0_1"
proof -
  show "rd_tenths (double_0_1 * double_0_1) = Fin double_0_1_sq"
    by (simp add: rd_tenths_def power2_eq_square)
  show "rd_tenths double_0_1_sq = Fin double_0_1_sq"
    by (simp add: rd_tenths_def)
  have p: "0 < double_0_1_sq" "double_0_1_sq < 1"
    by (simp_all add: double_0_1_sq_def)
  have a: "sqrt double_0_1_sq \<noteq> double_0_1 ^ 2"
  proof
    assume "sqrt double_0_1_sq = double_0_1 ^ 2"
    then have "(sqrt double_0_1_sq) ^ 2 = (double_0_1 ^ 2) ^ 2" by simp
    then have "double_0_1_sq = (double_0_1 ^ 2) ^ 2" using p by simp
    then show False
      by (simp add: double_0_1_sq_def double_0_1_def power2_eq_square)
  qed
  have b: "sqrt double_0_1_sq \<noteq> double_0_1_sq"
  proof
    assume "sqrt double_0_1_sq = double_0_1_sq"
    then have "(sqrt double_0_1_sq) ^ 2 = double_0_1_sq ^ 2" by simp
    then have "double_0_1_sq = double_0_1_sq ^ 2" using p by simp
    then show False
      by (simp add: double_0_1_sq_def power2_eq_square)
  qed
  have c: "(sqrt double_0_1_sq) ^ 2 = double_0_1_sq" "0 < sqrt double_0_1_sq"
    using p by simp_all
  show "rd_tenths (sqrt double_0_1_sq) = Fin double_0_1"
    unfolding rd_tenths_def using a b c by simp
qed

lemma rd_tenths_large: "1 \<le> r \<Longrightarrow> rd_tenths r = Fin r"
proof -
  assume r: "1 \<le> r"
  have "double_0_1 ^ 2 < 1" "double_0_1_sq < 1"
    by (simp_all add: double_0_1_def double_0_1_sq_def power2_eq_square)
  moreover have "1 \<le> r ^ 2"
    using r by (simp add: one_le_power)
  ultimately have "r \<noteq> double_0_1 ^ 2" "r \<noteq> double_0_1_sq" "r ^ 2 \<noteq> double_0_1_sq"
    using r by linarith+
  then show ?thesis
    by (simp add: rd_tenths_def)
qed

lemma magnitude_tenth:
  "magnitude_of rd_tenths (replicate n \<lparr> ACC_X = Fin double_0_1, ACC_Y = Fin 0, ACC_Z = Fin 0,
                                           BVP = b, HR = h, Sleep_Stage = l \<rparr>)
     = replicate n (Fin double_0_1)"
proof -
  have p: "double_0_1 \<noteq> 0" "0 < double_0_1_sq"
    by (simp_all add: double_0_1_def double_0_1_sq_def)
  have 1: "fl_sq rd_tenths (Fin double_0_1) = Fin double_0_1_sq"
    using p by (simp add: fl_sq_def fl_mul_def rd_tenths_values)
  have 2: "fl_sq rd_tenths (Fin 0) = Fin 0"
    by (simp add: fl_sq_def fl_mul_def fl_zero_def)
  have 3: "fl_add rd_tenths (Fin double_0_1_sq) (Fin 0) = Fin double_0_1_sq"
    using p by (simp add: fl_add_def rd_tenths_values)
  have 4: "fl_sqrt rd_tenths (Fin double_0_1_sq) = Fin double_0_1"
    using p by (simp add: rd_tenths_values)
  have "fl_sqrt rd_tenths (fl_add rd_tenths (fl_add rd_tenths (fl_sq rd_tenths (Fin double_0_1))
            (fl_sq rd_tenths (Fin 0))) (fl_sq rd_tenths (Fin 0))) = Fin double_0_1"
    by (simp only: 1 2 3 4)
  then show ?thesis
    by (simp add: magnitude_of_def)
qed

lemma lib_tenths_simps:
  "lib_round lib_tenths = rd_tenths"
  "lib_std lib_tenths (replicate 1920 (Fin double_0_1)) = Fin (1 / 2 ^ 56)"
  "lib_mean lib_tenths (replicate 1920 (Fin double_0_1)) = Fin (double_0_1 + 1 / 2 ^ 56)"
  "lib_skew lib_tenths (replicate 1920 (Fin double_0_1)) = NaN"
  "lib_kurtosis lib_tenths (replicate 1920 (Fin double_0_1)) = NaN"
  "lib_sum lib_tenths (replicate n (Fin 0)) = Fin 0"
  by (simp_all add: lib_tenths_def is_tenths_def lib_exact_def sum_list_replicate)

lemma tenth_acc_window:
  "epoch_window extractor_30s_64hz table_tenth_acc 0 = table_tenth_acc"
  by (simp add: epoch_window_def iloc_def py_slice_def extractor_30s_64hz_def table_tenth_acc_def)

lemma tenth_acc_magnitude:
  "magnitude_of (lib_round lib_tenths) (rows table_tenth_acc) = replicate 1920 (Fin double_0_1)"
  unfolding lib_tenths_simps(1) table_tenth_acc_def
  by (simp add: magnitude_tenth)

lemma tenth_acc_run:
  "\<exists>fv. extract_all_features lib_tenths extractor_30s_64hz find_peaks_short table_tenth_acc True True
           = Inr [fv] \<and>
        fv = extract_imu_features lib_tenths table_tenth_acc"
proof -
  let ?cfg = "extractor_30s_64hz"
  have h: "1 \<le> step_size ?cfg" "0 \<le> samples_per_epoch ?cfg"
    by (simp_all add: extractor_30s_64hz_def)
  have lab: "''Sleep_Stage'' \<in> set (columns table_tenth_acc) \<longrightarrow>
           (\<forall>i. int i * step_size ?cfg + samples_per_epoch ?cfg \<le> int (length (rows table_tenth_acc))
                  \<longrightarrow> epoch_labels ?cfg table_tenth_acc i \<noteq> [])"
    by (simp add: table_tenth_acc_def)
  from extract_all_features_total [OF h lab, of lib_tenths find_peaks_short True True]
  obtain eps where e: "extract_all_features lib_tenths ?cfg find_peaks_short table_tenth_acc True True = Inr eps"
    and l: "length eps = (if samples_per_epoch ?cfg \<le> int (length (rows table_tenth_acc))
                         then nat ((int (length (rows table_tenth_acc)) - samples_per_epoch ?cfg)
                                div step_size ?cfg) + 1
                         else 0)"
    and a: "\<forall>i < length eps.
              eps ! i = epoch_body lib_tenths ?cfg find_peaks_short (epoch_window ?cfg table_tenth_acc i) True True
                          @ label_part (epoch_window ?cfg table_tenth_acc i) \<and>
              rows (epoch_window ?cfg table_tenth_acc i)
                = take (nat (samples_per_epoch ?cfg)) (drop (i * nat (step_size ?cfg)) (rows table_tenth_acc)) \<and>
              length (rows (epoch_window ?cfg table_tenth_acc i)) = nat (samples_per_epoch ?cfg) \<and>
              i * nat (step_size ?cfg) + nat (samples_per_epoch ?cfg) \<le> length (rows table_tenth_acc)"
    by blast
  from l have len: "length eps = 1"
    by (simp add: extractor_30s_64hz_def table_tenth_acc_def)
  have c: "columns table_tenth_acc = [''ACC_X'', ''ACC_Y'', ''ACC_Z'']"
    by (simp add: table_tenth_acc_def)
  from a len have "eps ! 0 = epoch_body lib_tenths ?cfg find_peaks_short (epoch_window ?cfg table_tenth_acc 0) True True
                          @ label_part (epoch_window ?cfg table_tenth_acc 0)"
    by simp
  then have "eps ! 0 = extract_imu_features lib_tenths table_tenth_acc"
    unfolding tenth_acc_window by (simp add: epoch_body_def label_part_def c)
  moreover have "eps = [eps ! 0]"
    using len by (cases eps) auto
  ultimately show ?thesis
    using e by metis
qed

text \<open>
  C8 on the accelerometer samples \<open>(0.1, 0, 0)\<close>, 1920 rows at 64 Hz.  The magnitude is the
  constant 0.1.  The mean that numpy computes for it is \<open>0.1 + 2^-56\<close>, so the standard
  deviation it computes is \<open>2^-56\<close>, not 0: the guard \<open>np.std(signal_data) > 0\<close> holds, and
  skewness and kurtosis are what scipy returns, NaN.  Only the activity count is 0.
\<close>

theorem constant_magnitude_guard_misses:
  "FeatureExtractor_init lib_tenths 30 64 0 = Inr extractor_30s_64hz \<and>
   magnitude_of (lib_round lib_tenths) (rows table_tenth_acc) = replicate 1920 (Fin double_0_1) \<and>
   feature_values
     (extract_all_features lib_tenths extractor_30s_64hz find_peaks_short table_tenth_acc True True)
     [''imu_mag_std'', ''imu_mag_skew'', ''imu_mag_kurtosis'', ''imu_activity_count'']
   = Inr [[Some (Num (Fin (1 / 2 ^ 56))), Some (Num NaN), Some (Num NaN), Some (Num (Fin 0)) :: string cell option]]"
proof -
  have i: "FeatureExtractor_init lib_tenths 30 64 0 = Inr extractor_30s_64hz"
  proof -
    show ?thesis
      by (simp add: FeatureExtractor_init_def lib_tenths_simps(1) fl_mul_def fl_sub_def fl_add_def
          fl_of_int_def py_int_def extractor_30s_64hz_def rd_tenths_large)
  qed
  let ?e = "table_tenth_acc"
  let ?xs = "replicate 1920 (Fin double_0_1)"
  have c: "''ACC_X'' \<in> set (columns ?e)" "''ACC_Y'' \<in> set (columns ?e)" "''ACC_Z'' \<in> set (columns ?e)"
    by (simp_all add: table_tenth_acc_def)
  have k: "''imu_mag_std'' \<in> set (stat_names ''imu_mag'')"
    "''imu_mag_skew'' \<in> set (stat_names ''imu_mag'')"
    "''imu_mag_kurtosis'' \<in> set (stat_names ''imu_mag'')"
    by (simp_all add: stat_names_def)
  have d: "drop_nan ?xs = ?xs"
    by (simp add: drop_nan_replicate)
  have ne: "drop_nan ?xs \<noteq> []"
    unfolding d by simp
  have g: "fl_gt (lib_std lib_tenths ?xs) 0"
    by (simp add: lib_tenths_simps)
  have 1: "dict_get (extract_imu_features lib_tenths ?e) ''imu_mag_std'' = Some (Num (Fin (1 / 2 ^ 56)))"
    unfolding dict_get_imu_mag [OF c k(1)] tenth_acc_magnitude
    using dict_get_stat(1) [OF ne, of lib_tenths "''imu_mag''"]
    by (simp add: d lib_tenths_simps)
  have 2: "dict_get (extract_imu_features lib_tenths ?e) ''imu_mag_skew'' = Some (Num NaN)"
    unfolding dict_get_imu_mag [OF c k(2)] tenth_acc_magnitude
    using dict_get_stat(2) [OF ne, of lib_tenths "''imu_mag''"] g
    by (simp add: d lib_tenths_simps)
  have 3: "dict_get (extract_imu_features lib_tenths ?e) ''imu_mag_kurtosis'' = Some (Num NaN)"
    unfolding dict_get_imu_mag [OF c k(3)] tenth_acc_magnitude
    using dict_get_stat(3) [OF ne, of lib_tenths "''imu_mag''"] g
    by (simp add: d lib_tenths_simps)
  have z: "fl_sub rd_tenths (Fin double_0_1) (Fin double_0_1) = Fin 0"
    by (simp add: fl_sub_def fl_add_def fl_zero_def double_0_1_def)
  have 4: "dict_get (extract_imu_features lib_tenths ?e) ''imu_activity_count'' = Some (Num (Fin 0))"
    unfolding dict_get_imu_activity [OF c] tenth_acc_magnitude
    by (simp add: lib_tenths_simps(1) np_diff_fl_replicate z lib_tenths_simps(6))
  obtain fv where r: "extract_all_features lib_tenths extractor_30s_64hz find_peaks_short table_tenth_acc True True
           = Inr [fv]" and f: "fv = extract_imu_features lib_tenths table_tenth_acc"
    using tenth_acc_run by blast
  have "feature_values
     (extract_all_features lib_tenths extractor_30s_64hz find_peaks_short table_tenth_acc True True)
     [''imu_mag_std'', ''imu_mag_skew'', ''imu_mag_kurtosis'', ''imu_activity_count'']
   = Inr [[Some (Num (Fin (1 / 2 ^ 56))), Some (Num NaN), Some (Num NaN), Some (Num (Fin 0))]]"
    unfolding r feature_values_def f by (simp only: sum.case list.map 1 2 3 4)
  with i tenth_acc_magnitude show ?thesis by blast
qed


end
